theory Spec2Isabelle
  imports Main "HOL-Library.Char_ord" "HOL-Library.List_Lexorder"
begin

section \<open>Values of the program\<close>

text \<open>
  The exceptions the program can end with, as values. \<open>URLError\<close> and \<open>HTTPError\<close> are what
  \<^verbatim>\<open>urllib.request.urlopen\<close> raises for a transport failure and for an error status;
  \<open>AssertionError\<close> is the failed \<^verbatim>\<open>assert 200 == response.status\<close>; \<open>JSONDecodeError\<close> is a
  body that \<^verbatim>\<open>json.loads\<close> rejects; the others are Python's own, raised by subscripting,
  unpacking and iterating, and by \<^verbatim>\<open>raise NotImplementedError\<close> in \<^verbatim>\<open>main\<close>;
  \<open>UnicodeEncodeError\<close> and \<open>OSError\<close> are what \<^verbatim>\<open>print\<close> raises when standard output
  cannot take the text.
\<close>

datatype error =
    URLError
  | HTTPError int
  | AssertionError
  | JSONDecodeError
  | KeyError
  | IndexError
  | TypeError
  | ValueError
  | NotImplementedError
  | UnicodeEncodeError
  | OSError

text \<open>
  What \<^verbatim>\<open>json.loads\<close> returns: \<^verbatim>\<open>None\<close>, a bool, an int, a str, a list or a dict. A dict
  is the list of its items in insertion order (its keys are distinct, as in Python). Strings
  are the UTF-8 bytes of the Python string. An int has at most 4300 digits: \<^verbatim>\<open>json.loads\<close>
  and \<^verbatim>\<open>int\<close> refuse more. Floating-point numbers are not modelled: the program does no
  arithmetic on a payload.
\<close>

datatype json =
    JNull
  | JBool bool
  | JNum int
  | JStr string
  | JArr "json list"
  | JObj "(string \<times> json) list"

text \<open>
  An HTTP response as the program reads it: its status, and what
  \<^verbatim>\<open>json.loads(response.read())\<close> evaluates to (\<open>Inl\<close> the exception when reading or parsing
  raises).
\<close>

record response =
  status :: int
  body :: "error + json"

text \<open>The fields of the UTC instant that \<^verbatim>\<open>strftime\<close> reads for the formats of the table.\<close>

record timestamp =
  year :: nat
  month :: nat
  day :: nat
  hour :: nat
  iso_week :: nat

text \<open>
  What Unicode says of a character for \<^verbatim>\<open>str.isdigit\<close> and \<^verbatim>\<open>int\<close>: a decimal digit with its
  value, which both accept; another digit, such as a superscript, which \<^verbatim>\<open>isdigit\<close> accepts
  and \<^verbatim>\<open>int\<close> refuses; or no digit.
\<close>

datatype digit_kind = Decimal nat | Other_digit | No_digit

text \<open>
  The world outside the program. \<open>net n url\<close> is the outcome of the request for \<open>url\<close> when
  \<open>n\<close> requests were issued before it in this run: an exception of \<^verbatim>\<open>urlopen\<close> or a
  response. \<open>now\<close> is what \<^verbatim>\<open>datetime.datetime.now(datetime.UTC)\<close> returns. The other
  fields are the parts of Python's library that the model does not compute:
  \<open>py_format\<close> is the text \<^verbatim>\<open>str()\<close> gives a list or a dict of a payload;
  \<open>sort_other\<close> is what \<^verbatim>\<open>sorted\<close> does with two or more (key, value) pairs whose keys are
  neither all strings nor all numbers; \<open>unicode_digit\<close> classifies a character outside
  ASCII, given as its UTF-8 bytes; \<open>stdout_error\<close> is the exception that writing a text to
  standard output raises, if any.
\<close>

record env =
  net :: "nat \<Rightarrow> string \<Rightarrow> error + response"
  now :: timestamp
  py_format :: "json \<Rightarrow> string"
  sort_other :: "(json \<times> json) list \<Rightarrow> error + json list"
  unicode_digit :: "string \<Rightarrow> digit_kind"
  stdout_error :: "string \<Rightarrow> error option"

text \<open>
  What a run does, in order: the requests it issues, the sleeps, the diagnostic records on
  standard error (\<^verbatim>\<open>print(f"{url=}", file=sys.stderr)\<close> and \<^verbatim>\<open>print(f"{sleep=}", ...)\<close>), and
  the texts written on standard output, each with the line terminator that \<^verbatim>\<open>print\<close> adds.
\<close>

datatype event =
    Request string
  | Sleep int
  | Stderr_url string
  | Stderr_sleep int
  | Stdout string

type_synonym trace = "event list"

fun requests_of :: "trace \<Rightarrow> string list" where
  "requests_of [] = []"
| "requests_of (Request url # t) = url # requests_of t"
| "requests_of (_ # t) = requests_of t"

fun sleeps_of :: "trace \<Rightarrow> int list" where
  "sleeps_of [] = []"
| "sleeps_of (Sleep n # t) = n # sleeps_of t"
| "sleeps_of (_ # t) = sleeps_of t"

fun stdout_of :: "trace \<Rightarrow> string list" where
  "stdout_of [] = []"
| "stdout_of (Stdout l # t) = l # stdout_of t"
| "stdout_of (_ # t) = stdout_of t"

section \<open>Python's operations on these values\<close>

text \<open>An exception ends the computation: the rest runs only on a result.\<close>

definition and_then :: "error + 'a \<Rightarrow> ('a \<Rightarrow> error + 'b) \<Rightarrow> error + 'b" where
  "and_then r f = (case r of Inl x \<Rightarrow> Inl x | Inr v \<Rightarrow> f v)"

text \<open>
  A comprehension \<^verbatim>\<open>[f(x) for x in xs if c(x)]\<close>, evaluated element by element: \<open>f\<close> returns
  \<open>None\<close> for an element the condition skips, and the first exception ends the loop.
\<close>

fun collect :: "('a \<Rightarrow> error + 'b option) \<Rightarrow> 'a list \<Rightarrow> error + 'b list" where
  "collect f [] = Inr []"
| "collect f (x # xs) =
     (case f x of
        Inl err \<Rightarrow> Inl err
      | Inr None \<Rightarrow> collect f xs
      | Inr (Some y) \<Rightarrow> (case collect f xs of Inl err \<Rightarrow> Inl err | Inr ys \<Rightarrow> Inr (y # ys)))"

text \<open>Truth value testing: \<^verbatim>\<open>None\<close>, \<^verbatim>\<open>False\<close>, zero and the empty containers are false.\<close>

fun py_truthy :: "json \<Rightarrow> bool" where
  "py_truthy JNull = False"
| "py_truthy (JBool b) = b"
| "py_truthy (JNum n) = (n \<noteq> 0)"
| "py_truthy (JStr s) = (s \<noteq> [])"
| "py_truthy (JArr xs) = (xs \<noteq> [])"
| "py_truthy (JObj d) = (d \<noteq> [])"

text \<open>
  The characters of a string, each as the string of its UTF-8 bytes: a byte from 0x80 to
  0xBF continues the character before it.
\<close>

definition continuation :: "char \<Rightarrow> bool" where
  "continuation c = (128 \<le> (of_char c :: nat) \<and> (of_char c :: nat) < 192)"

function utf8_chars :: "string \<Rightarrow> string list" where
  "utf8_chars [] = []"
| "utf8_chars (c # cs) = (c # takeWhile continuation cs) # utf8_chars (dropWhile continuation cs)"
  by pat_completeness auto
termination
  by (relation "measure length") (auto simp: length_dropWhile_le less_Suc_eq_le)

text \<open>\<^verbatim>\<open>xs[i]\<close> on a sequence: a negative index counts from the end.\<close>

definition py_index :: "'a list \<Rightarrow> int \<Rightarrow> error + 'a" where
  "py_index xs i =
     (if 0 \<le> i \<and> i < int (length xs) then Inr (xs ! nat i)
      else if i < 0 \<and> - int (length xs) \<le> i then Inr (xs ! nat (int (length xs) + i))
      else Inl IndexError)"

text \<open>
  \<^verbatim>\<open>obj[key]\<close>. A dict of a payload has string keys only, so another hashable key is
  missing from it and a list or dict as key is unhashable. A list and a string take an
  integer (a bool is one). \<^verbatim>\<open>None\<close>, bools and ints are not subscriptable.
\<close>

fun py_getitem :: "json \<Rightarrow> json \<Rightarrow> error + json" where
  "py_getitem (JObj d) (JStr k) = (case map_of d k of None \<Rightarrow> Inl KeyError | Some v \<Rightarrow> Inr v)"
| "py_getitem (JObj d) (JArr _) = Inl TypeError"
| "py_getitem (JObj d) (JObj _) = Inl TypeError"
| "py_getitem (JObj d) _ = Inl KeyError"
| "py_getitem (JArr xs) (JNum i) = py_index xs i"
| "py_getitem (JArr xs) (JBool b) = py_index xs (if b then 1 else 0)"
| "py_getitem (JArr xs) _ = Inl TypeError"
| "py_getitem (JStr s) (JNum i) = and_then (py_index (utf8_chars s) i) (\<lambda>c. Inr (JStr c))"
| "py_getitem (JStr s) (JBool b) =
     and_then (py_index (utf8_chars s) (if b then 1 else 0)) (\<lambda>c. Inr (JStr c))"
| "py_getitem (JStr s) _ = Inl TypeError"
| "py_getitem _ _ = Inl TypeError"

text \<open>
  \<^verbatim>\<open>for x in obj\<close>: the elements of a list, the keys of a dict, the characters of a string;
  \<^verbatim>\<open>reversed(obj)\<close> is the same sequence backwards. Neither is defined on \<^verbatim>\<open>None\<close>, a bool or
  an int.
\<close>

fun py_iter :: "json \<Rightarrow> error + json list" where
  "py_iter (JArr xs) = Inr xs"
| "py_iter (JObj d) = Inr (map (\<lambda>kv. JStr (fst kv)) d)"
| "py_iter (JStr s) = Inr (map JStr (utf8_chars s))"
| "py_iter _ = Inl TypeError"

definition py_reversed :: "json \<Rightarrow> error + json list" where
  "py_reversed obj = and_then (py_iter obj) (\<lambda>xs. Inr (rev xs))"

text \<open>
  \<^verbatim>\<open>==\<close> on payload values: \<^verbatim>\<open>True == 1\<close> and \<^verbatim>\<open>False == 0\<close>; lists are equal element by
  element; dicts are equal when they have as many items and every key of the one is in the
  other with an equal value, whatever the order. \<^verbatim>\<open>x in xs\<close> looks for an equal element.
\<close>

fun py_eq :: "json \<Rightarrow> json \<Rightarrow> bool"
  and py_eq_list :: "json list \<Rightarrow> json list \<Rightarrow> bool"
  and py_eq_items :: "(string \<times> json) list \<Rightarrow> (string \<times> json) list \<Rightarrow> bool" where
  "py_eq JNull y = (case y of JNull \<Rightarrow> True | _ \<Rightarrow> False)"
| "py_eq (JBool a) y =
     (case y of JBool b \<Rightarrow> a = b | JNum n \<Rightarrow> (if a then 1 else 0) = n | _ \<Rightarrow> False)"
| "py_eq (JNum m) y =
     (case y of JBool b \<Rightarrow> m = (if b then 1 else 0) | JNum n \<Rightarrow> m = n | _ \<Rightarrow> False)"
| "py_eq (JStr s) y = (case y of JStr u \<Rightarrow> s = u | _ \<Rightarrow> False)"
| "py_eq (JArr xs) y = (case y of JArr ys \<Rightarrow> py_eq_list xs ys | _ \<Rightarrow> False)"
| "py_eq (JObj d) y =
     (case y of JObj d' \<Rightarrow> length d = length d' \<and> py_eq_items d d' | _ \<Rightarrow> False)"
| "py_eq_list [] ys = (ys = [])"
| "py_eq_list (x # xs) ys =
     (case ys of [] \<Rightarrow> False | y # ys' \<Rightarrow> py_eq x y \<and> py_eq_list xs ys')"
| "py_eq_items [] d' = True"
| "py_eq_items ((k, v) # d) d' =
     (case map_of d' k of None \<Rightarrow> False | Some v' \<Rightarrow> py_eq v v' \<and> py_eq_items d d')"

definition py_in :: "json \<Rightarrow> json list \<Rightarrow> bool" where
  "py_in x xs = list_ex (\<lambda>y. py_eq y x) xs"

text \<open>
  \<^verbatim>\<open>str()\<close> of a payload value, as an f-string formats it: a string is itself, the others are
  written as Python writes them; the text of a list or dict is the environment's.
\<close>

definition digit_char :: "nat \<Rightarrow> char" where
  "digit_char d = char_of (48 + d)"

fun decimal :: "nat \<Rightarrow> string" where
  "decimal n = (if n < 10 then [digit_char n] else decimal (n div 10) @ [digit_char (n mod 10)])"

declare decimal.simps [simp del]

definition py_str :: "env \<Rightarrow> json \<Rightarrow> string" where
  "py_str e v =
     (case v of
        JStr s \<Rightarrow> s
      | JNull \<Rightarrow> ''None''
      | JBool b \<Rightarrow> (if b then ''True'' else ''False'')
      | JNum n \<Rightarrow> (if n < 0 then CHR ''-'' # decimal (nat (- n)) else decimal (nat n))
      | _ \<Rightarrow> py_format e v)"

text \<open>
  \<^verbatim>\<open>s.split(sep, maxsplit)\<close> for a separator of one character: at most \<open>maxsplit\<close> cuts, from
  the left.
\<close>

fun py_split :: "char \<Rightarrow> nat \<Rightarrow> string \<Rightarrow> string list" where
  "py_split sep 0 s = [s]"
| "py_split sep (Suc n) s =
     (if sep \<in> set s
      then takeWhile (\<lambda>c. c \<noteq> sep) s # py_split sep n (tl (dropWhile (\<lambda>c. c \<noteq> sep) s))
      else [s])"

text \<open>Unpacking \<^verbatim>\<open>a, b = xs\<close> and \<^verbatim>\<open>a, b, c = xs\<close>: another length is a \<open>ValueError\<close>.\<close>

definition unpack2 :: "'a list \<Rightarrow> error + ('a \<times> 'a)" where
  "unpack2 xs = (case xs of [a, b] \<Rightarrow> Inr (a, b) | _ \<Rightarrow> Inl ValueError)"

definition unpack3 :: "'a list \<Rightarrow> error + ('a \<times> 'a \<times> 'a)" where
  "unpack3 xs = (case xs of [a, b, c] \<Rightarrow> Inr (a, b, c) | _ \<Rightarrow> Inl ValueError)"

section \<open>The resilient fetcher\<close>

definition RETRIES :: nat where
  "RETRIES = 3"

text \<open>
  \<^verbatim>\<open>_urlopen(url, __retries)\<close>. The trace is passed in and returned extended. \<open>attempt\<close> is
  the body of the \<^verbatim>\<open>try\<close>, the \<open>n\<close>-th request of the run: it fails when \<^verbatim>\<open>urlopen\<close> raises
  or the status is not 200 (the assertion). \<^verbatim>\<open>except Exception\<close> then sleeps and calls
  itself with one retry less, or re-raises the exception when no retry is left.
  \<^verbatim>\<open>time.sleep\<close> raises \<open>ValueError\<close> on a negative duration. The callers never pass
  \<^verbatim>\<open>__retries\<close>, so it is a natural number here.
\<close>

definition attempt :: "env \<Rightarrow> nat \<Rightarrow> string \<Rightarrow> error + response" where
  "attempt e n url =
     (case net e n url of
        Inl x \<Rightarrow> Inl x
      | Inr r \<Rightarrow> if 200 = status r then Inr r else Inl AssertionError)"

fun urlopen :: "env \<Rightarrow> string \<Rightarrow> nat \<Rightarrow> trace \<Rightarrow> (error + response) \<times> trace" where
  "urlopen e url retries t =
     (let t1 = (if RETRIES = retries then t @ [Stderr_url url] else t);
          t2 = t1 @ [Request url]
      in case attempt e (length (requests_of t1)) url of
           Inr r \<Rightarrow> (Inr r, t2)
         | Inl x \<Rightarrow>
             if retries \<noteq> 0 then
               let sleep = 30 * (int RETRIES - int retries + 1);
                   t3 = t2 @ [Stderr_sleep sleep]
               in if sleep < 0 then (Inl ValueError, t3)
                  else urlopen e url (retries - 1) (t3 @ [Sleep sleep])
             else (Inl x, t2))"

declare urlopen.simps [simp del]

text \<open>
  A computation that extends the trace and returns a value or raises; \<open>io_bind\<close> runs the
  next one on the value, \<open>io_pure\<close> is a step that touches nothing outside.
\<close>

type_synonym 'a io = "trace \<Rightarrow> (error + 'a) \<times> trace"

definition io_bind :: "'a io \<Rightarrow> ('a \<Rightarrow> 'b io) \<Rightarrow> 'b io" where
  "io_bind m f t = (case m t of (Inl x, t') \<Rightarrow> (Inl x, t') | (Inr v, t') \<Rightarrow> f v t')"

definition io_pure :: "error + 'a \<Rightarrow> 'a io" where
  "io_pure r t = (r, t)"

text \<open>\<^verbatim>\<open>json.loads(response.read())[key]\<close>.\<close>

definition loads_field :: "response \<Rightarrow> string \<Rightarrow> error + json" where
  "loads_field response key = and_then (body response) (\<lambda>payload. py_getitem payload (JStr key))"

section \<open>The package index\<close>

text \<open>
  \<^verbatim>\<open>sorted(versions, key=...)\<close> on the list of (key, version) pairs: the keys are compared
  with \<^verbatim>\<open><\<close>, and versions of equal keys keep their order. No comparison is made on fewer
  than two elements. Strings compare by code point, which is the order of their UTF-8
  bytes; ints and bools compare as numbers. Keys of other kinds, or of several kinds, may
  not compare at all, and what \<^verbatim>\<open>sorted\<close> does then depends on the comparisons it happens to
  make: that outcome is the environment's.
\<close>

fun str_of :: "json \<Rightarrow> string" where
  "str_of (JStr s) = s"
| "str_of _ = []"

fun is_str :: "json \<Rightarrow> bool" where
  "is_str (JStr s) = True"
| "is_str _ = False"

fun num_of :: "json \<Rightarrow> int" where
  "num_of (JNum n) = n"
| "num_of (JBool b) = (if b then 1 else 0)"
| "num_of _ = 0"

fun is_num :: "json \<Rightarrow> bool" where
  "is_num (JNum n) = True"
| "is_num (JBool b) = True"
| "is_num _ = False"

definition py_sorted :: "env \<Rightarrow> (json \<times> json) list \<Rightarrow> error + json list" where
  "py_sorted e kvs =
     (if length kvs \<le> 1 then Inr (map snd kvs)
      else if list_all (\<lambda>kv. is_str (fst kv)) kvs
      then Inr (map snd (sort_key (\<lambda>kv. str_of (fst kv)) kvs))
      else if list_all (\<lambda>kv. is_num (fst kv)) kvs
      then Inr (map snd (sort_key (\<lambda>kv. num_of (fst kv)) kvs))
      else sort_other e kvs)"

text \<open>
  The condition of the filter,
  \<^verbatim>\<open>(release := releases[release]) and not release[0]["yanked"]\<close>, and the key of the sort,
  \<^verbatim>\<open>releases[release][0]["upload_time_iso_8601"]\<close>.
\<close>

definition not_yanked :: "json \<Rightarrow> json \<Rightarrow> error + bool" where
  "not_yanked releases release =
     and_then (py_getitem releases release) (\<lambda>files.
       if \<not> py_truthy files then Inr False
       else and_then (py_getitem files (JNum 0)) (\<lambda>file.
            and_then (py_getitem file (JStr ''yanked'')) (\<lambda>yanked.
              Inr (\<not> py_truthy yanked))))"

definition upload_time :: "json \<Rightarrow> json \<Rightarrow> error + json" where
  "upload_time releases release =
     and_then (py_getitem releases release) (\<lambda>files.
     and_then (py_getitem files (JNum 0)) (\<lambda>file.
       py_getitem file (JStr ''upload_time_iso_8601'')))"

definition get_pip_versions_2 :: "env \<Rightarrow> string \<Rightarrow> json list io" where
  "get_pip_versions_2 e package =
     (let url = ''https://pypi.org/pypi/'' @ package @ ''/json'' in
      io_bind (urlopen e url RETRIES) (\<lambda>response. io_pure (
        and_then (loads_field response ''releases'') (\<lambda>releases.
        and_then (py_iter releases) (\<lambda>names.
        and_then (collect (\<lambda>release. and_then (not_yanked releases release) (\<lambda>keep.
                     Inr (if keep then Some release else None))) names) (\<lambda>versions.
        and_then (collect (\<lambda>release. and_then (upload_time releases release) (\<lambda>key.
                     Inr (Some (key, release)))) versions) (py_sorted e)))))))"

text \<open>\<^verbatim>\<open>xs[-1]\<close> of a provider's list.\<close>

definition latest :: "json list io \<Rightarrow> json io" where
  "latest m = io_bind m (\<lambda>xs. io_pure (py_index xs (- 1)))"

definition get_pip_version_2 :: "env \<Rightarrow> string \<Rightarrow> json io" where
  "get_pip_version_2 e package = latest (get_pip_versions_2 e package)"

definition get_pip_version :: "env \<Rightarrow> string \<Rightarrow> json io" where
  "get_pip_version e package = get_pip_version_2 e package"

section \<open>The node package index and the module proxy\<close>

definition get_npm_version_1 :: "env \<Rightarrow> string \<Rightarrow> json io" where
  "get_npm_version_1 e package =
     (let url = ''https://registry.npmjs.org/'' @ package in
      io_bind (urlopen e url RETRIES) (\<lambda>response. io_pure (
        and_then (loads_field response ''dist-tags'') (\<lambda>tags.
          py_getitem tags (JStr ''latest'')))))"

definition get_npm_version :: "env \<Rightarrow> string \<Rightarrow> json io" where
  "get_npm_version e package = get_npm_version_1 e package"

definition get_go_version_1 :: "env \<Rightarrow> string \<Rightarrow> json io" where
  "get_go_version_1 e module =
     (let url = ''https://proxy.golang.org/'' @ module @ ''/@latest'' in
      io_bind (urlopen e url RETRIES) (\<lambda>response. io_pure (loads_field response ''Version'')))"

definition get_go_version :: "env \<Rightarrow> string \<Rightarrow> json io" where
  "get_go_version e module = get_go_version_1 e module"

section \<open>Repository references\<close>

definition SEP_BRANCH :: char where
  "SEP_BRANCH = CHR '':''"

definition SEP_BASE :: char where
  "SEP_BASE = CHR ''@''"

definition DEFAULT_BRANCH :: string where
  "DEFAULT_BRANCH = ''''"

definition DEFAULT_GH_BASE :: string where
  "DEFAULT_GH_BASE = ''https://api.github.com''"

definition DEFAULT_GL_BASE :: string where
  "DEFAULT_GL_BASE = ''https://gitlab.com''"

text \<open>
  The two functions below return \<^verbatim>\<open>tuple(repository.split(sep, 1))\<close>, which their callers
  unpack into two names; \<^verbatim>\<open>_get_repository_path\<close> unpacks the three parts itself.
\<close>

definition get_repository_base :: "string \<Rightarrow> string \<Rightarrow> string list" where
  "get_repository_base repository default_base =
     (let repository = (if SEP_BASE \<notin> set repository
                        then repository @ [SEP_BASE] @ default_base else repository)
      in py_split SEP_BASE 1 repository)"

definition get_repository_branch :: "string \<Rightarrow> string list" where
  "get_repository_branch repository =
     (let repository = (if SEP_BRANCH \<notin> set repository
                        then repository @ [SEP_BRANCH] @ DEFAULT_BRANCH else repository)
      in py_split SEP_BRANCH 1 repository)"

definition get_repository_path :: "string \<Rightarrow> error + (string \<times> string)" where
  "get_repository_path repository =
     (let repository = (if 1 = count_list repository CHR ''/''
                        then repository @ ''/'' else repository)
      in and_then (unpack3 (py_split CHR ''/'' 2 repository)) (\<lambda>(owner, repository, path).
           Inr (owner @ ''/'' @ repository, path)))"

definition get_gh_repository_base :: "string \<Rightarrow> string list" where
  "get_gh_repository_base repository = get_repository_base repository DEFAULT_GH_BASE"

section \<open>The git hosting providers\<close>

text \<open>\<^verbatim>\<open>[result[key] for result in reversed(json.loads(response.read()))]\<close>.\<close>

definition reversed_fields :: "response \<Rightarrow> string \<Rightarrow> error + json list" where
  "reversed_fields response key =
     and_then (body response) (\<lambda>payload.
     and_then (py_reversed payload) (\<lambda>results.
       collect (\<lambda>result. and_then (py_getitem result (JStr key)) (\<lambda>v. Inr (Some v))) results))"

definition get_gh_commits :: "env \<Rightarrow> string \<Rightarrow> json list io" where
  "get_gh_commits e repository =
     io_bind (io_pure (unpack2 (get_gh_repository_base repository))) (\<lambda>(repository, base).
     io_bind (io_pure (unpack2 (get_repository_branch repository))) (\<lambda>(repository, branch).
     io_bind (io_pure (get_repository_path repository)) (\<lambda>(repository, path).
       let url = base @ ''/repos/'' @ repository @ ''/commits?sha='' @ branch
                   @ ''&path='' @ path in
       io_bind (urlopen e url RETRIES) (\<lambda>response.
         io_pure (reversed_fields response ''sha'')))))"

definition get_gh_commit :: "env \<Rightarrow> string \<Rightarrow> json io" where
  "get_gh_commit e repository = latest (get_gh_commits e repository)"

definition get_gh_tags :: "env \<Rightarrow> string \<Rightarrow> json list io" where
  "get_gh_tags e repository =
     io_bind (io_pure (unpack2 (get_gh_repository_base repository))) (\<lambda>(repository, base).
       let url = base @ ''/repos/'' @ repository @ ''/tags'' in
       io_bind (urlopen e url RETRIES) (\<lambda>response.
         io_pure (reversed_fields response ''name'')))"

definition get_gh_tag :: "env \<Rightarrow> string \<Rightarrow> json io" where
  "get_gh_tag e repository = latest (get_gh_tags e repository)"




definition get_gh_release_2 :: "env \<Rightarrow> string \<Rightarrow> json io" where
  "get_gh_release_2 e repository =
     io_bind (io_pure (unpack2 (get_gh_repository_base repository))) (\<lambda>(repository, base).
       let url = base @ ''/repos/'' @ repository @ ''/releases/latest'' in
       io_bind (urlopen e url RETRIES) (\<lambda>response.
         io_pure (loads_field response ''tag_name'')))"

definition get_gh_release :: "env \<Rightarrow> string \<Rightarrow> json io" where
  "get_gh_release e repository = get_gh_release_2 e repository"

definition get_gh_deployments :: "env \<Rightarrow> string \<Rightarrow> json list io" where
  "get_gh_deployments e repository =
     io_bind (io_pure (unpack2 (get_gh_repository_base repository))) (\<lambda>(repository, base).
       let url = base @ ''/repos/'' @ repository @ ''/deployments'' in
       io_bind (urlopen e url RETRIES) (\<lambda>response.
         io_pure (reversed_fields response ''sha'')))"

definition get_gh_deployment :: "env \<Rightarrow> string \<Rightarrow> json io" where
  "get_gh_deployment e repository = latest (get_gh_deployments e repository)"

section \<open>The alternate forge\<close>

definition get_gl_repository_base :: "string \<Rightarrow> string list" where
  "get_gl_repository_base repository = get_repository_base repository DEFAULT_GL_BASE"

text \<open>
  \<^verbatim>\<open>str.isdigit\<close>, \<^verbatim>\<open>int\<close> and \<^verbatim>\<open>str.replace\<close> on the project reference. A character of
  ASCII is a decimal digit from \<open>0\<close> to \<open>9\<close> or no digit; of the others the environment
  tells. \<^verbatim>\<open>isdigit\<close> wants at least one character and digits only; \<^verbatim>\<open>int\<close> reads decimal
  digits, and refuses another digit and more than 4300 digits.
\<close>

definition digit :: "env \<Rightarrow> string \<Rightarrow> digit_kind" where
  "digit e c =
     (case c of
        [b] \<Rightarrow> if (of_char b :: nat) < 128
               then (if 48 \<le> (of_char b :: nat) \<and> (of_char b :: nat) \<le> 57
                     then Decimal (of_char b - 48) else No_digit)
               else unicode_digit e c
      | _ \<Rightarrow> unicode_digit e c)"

definition isdigit :: "env \<Rightarrow> string \<Rightarrow> bool" where
  "isdigit e s = (s \<noteq> [] \<and> list_all (\<lambda>c. digit e c \<noteq> No_digit) (utf8_chars s))"

fun digit_value :: "digit_kind \<Rightarrow> int option" where
  "digit_value (Decimal d) = Some (int d)"
| "digit_value _ = None"

fun read_digits :: "int \<Rightarrow> digit_kind list \<Rightarrow> error + int" where
  "read_digits acc [] = Inr acc"
| "read_digits acc (k # ks) =
     (case digit_value k of None \<Rightarrow> Inl ValueError | Some d \<Rightarrow> read_digits (10 * acc + d) ks)"

definition py_int :: "env \<Rightarrow> string \<Rightarrow> error + int" where
  "py_int e s =
     (if 4300 < length (utf8_chars s) then Inl ValueError
      else read_digits 0 (map (digit e) (utf8_chars s)))"

definition replace_slash :: "string \<Rightarrow> string" where
  "replace_slash s = concat (map (\<lambda>c. if c = CHR ''/'' then ''%2F'' else [c]) s)"

definition get_gl_repository :: "env \<Rightarrow> string \<Rightarrow> string \<Rightarrow> json io" where
  "get_gl_repository e repository base =
     (if isdigit e repository
      then io_pure (and_then (py_int e repository) (\<lambda>n. Inr (JNum n)))
      else let url = base @ ''/api/v4/projects/'' @ replace_slash repository in
           io_bind (urlopen e url RETRIES) (\<lambda>response. io_pure (loads_field response ''id'')))"

definition get_gl_commits :: "env \<Rightarrow> string \<Rightarrow> json list io" where
  "get_gl_commits e repository =
     io_bind (io_pure (unpack2 (get_gl_repository_base repository))) (\<lambda>(repository, base).
     io_bind (io_pure (unpack2 (get_repository_branch repository))) (\<lambda>(repository, branch).
     io_bind (get_gl_repository e repository base) (\<lambda>project.
       let url = base @ ''/api/v4/projects/'' @ py_str e project
                   @ ''/repository/commits?ref_name='' @ branch in
       io_bind (urlopen e url RETRIES) (\<lambda>response.
         io_pure (reversed_fields response ''id'')))))"

definition get_gl_commit :: "env \<Rightarrow> string \<Rightarrow> json io" where
  "get_gl_commit e repository = latest (get_gl_commits e repository)"

definition get_gl_tags :: "env \<Rightarrow> string \<Rightarrow> json list io" where
  "get_gl_tags e repository =
     io_bind (io_pure (unpack2 (get_gl_repository_base repository))) (\<lambda>(repository, base).
     io_bind (get_gl_repository e repository base) (\<lambda>project.
       let url = base @ ''/api/v4/projects/'' @ py_str e project
                   @ ''/repository/tags?order_by=version'' in
       io_bind (urlopen e url RETRIES) (\<lambda>response.
         io_pure (reversed_fields response ''name''))))"

definition get_gl_tag :: "env \<Rightarrow> string \<Rightarrow> json io" where
  "get_gl_tag e repository = latest (get_gl_tags e repository)"

section \<open>The calendar provider\<close>

definition CR_COICES :: "(string \<times> string) list" where
  "CR_COICES =
     [(''hourly'', ''%Y-%m-%dT%H''),
      (''daily'', ''%Y-%m-%d''),
      (''weekly'', ''%Y-W%V''),
      (''monthly'', ''%Y-%m''),
      (''yearly'', ''%Y''),
      (''annually'', ''%Y'')]"

text \<open>
  \<^verbatim>\<open>strftime\<close> for the directives of the table: the year in four digits, the month, the day,
  the hour and the ISO week in two, zero-padded.
\<close>

definition zero_pad :: "nat \<Rightarrow> string \<Rightarrow> string" where
  "zero_pad n s = replicate (n - length s) CHR ''0'' @ s"

definition directive :: "char \<Rightarrow> timestamp \<Rightarrow> string" where
  "directive c ts =
     (if c = CHR ''Y'' then zero_pad 4 (decimal (year ts))
      else if c = CHR ''m'' then zero_pad 2 (decimal (month ts))
      else if c = CHR ''d'' then zero_pad 2 (decimal (day ts))
      else if c = CHR ''H'' then zero_pad 2 (decimal (hour ts))
      else if c = CHR ''V'' then zero_pad 2 (decimal (iso_week ts))
      else [CHR ''%'', c])"

fun strftime :: "string \<Rightarrow> timestamp \<Rightarrow> string" where
  "strftime (a # b # fs) ts =
     (if a = CHR ''%'' then directive b ts @ strftime fs ts else a # strftime (b # fs) ts)"
| "strftime fs ts = fs"

definition get_cron_tag :: "env \<Rightarrow> string \<Rightarrow> json io" where
  "get_cron_tag e cron =
     (let timestamp = now e in
      io_pure (case map_of CR_COICES cron of
                 None \<Rightarrow> Inl KeyError
               | Some format \<Rightarrow> Inr (JStr (strftime format timestamp))))"

section \<open>The published tags and the selector\<close>

definition get_docker_tags :: "env \<Rightarrow> string \<Rightarrow> json list io" where
  "get_docker_tags e repository =
     (if repository = '''' then io_pure (Inr [])
      else let url = ''https://hub.docker.com/v2/repositories/'' @ repository @ ''/tags'' in
           io_bind (urlopen e url RETRIES) (\<lambda>response. io_pure (
             and_then (loads_field response ''results'') (\<lambda>results.
             and_then (py_iter results) (\<lambda>entries.
               collect (\<lambda>result. and_then (py_getitem result (JStr ''name''))
                                   (\<lambda>v. Inr (Some v))) entries)))))"

text \<open>
  The parsed arguments: the positional \<^verbatim>\<open>docker_tag\<close>, and for each provider its option, which
  is \<^verbatim>\<open>None\<close> when neither the command line nor the environment gives it. An option selects
  its provider when it is true as Python tests it: given and not empty.
\<close>

record args =
  docker_tag :: string
  pip :: "string option"
  npm :: "string option"
  go :: "string option"
  gh_commit :: "string option"
  gh_tag :: "string option"
  gh_release :: "string option"
  gh_deployment :: "string option"
  gl_commit :: "string option"
  gl_tag :: "string option"
  cr :: "string option"

definition given :: "string option \<Rightarrow> bool" where
  "given opt = (case opt of None \<Rightarrow> False | Some s \<Rightarrow> s \<noteq> '''')"

definition arg :: "string option \<Rightarrow> string" where
  "arg opt = (case opt of None \<Rightarrow> '''' | Some s \<Rightarrow> s)"

text \<open>The chain of \<^verbatim>\<open>if args.pip: ... elif ... else: raise NotImplementedError\<close> of \<^verbatim>\<open>main\<close>.\<close>

definition select_tag :: "env \<Rightarrow> args \<Rightarrow> json io" where
  "select_tag e a =
     (if given (pip a) then get_pip_version e (arg (pip a))
      else if given (npm a) then get_npm_version e (arg (npm a))
      else if given (go a) then get_go_version e (arg (go a))
      else if given (gh_commit a) then get_gh_commit e (arg (gh_commit a))
      else if given (gh_tag a) then get_gh_tag e (arg (gh_tag a))
      else if given (gh_release a) then get_gh_release e (arg (gh_release a))
      else if given (gh_deployment a) then get_gh_deployment e (arg (gh_deployment a))
      else if given (gl_commit a) then get_gl_commit e (arg (gl_commit a))
      else if given (gl_tag a) then get_gl_tag e (arg (gl_tag a))
      else if given (cr a) then get_cron_tag e (arg (cr a))
      else io_pure (Inl NotImplementedError))"

text \<open>
  \<^verbatim>\<open>main\<close> after \<^verbatim>\<open>parser.parse_args()\<close>: the published tags first, then the selected
  provider, then \<^verbatim>\<open>print(f"tag={tag}")\<close> when the tag is not among them. \<^verbatim>\<open>print\<close> writes the
  text and a line feed, or raises what standard output raises on the text and writes
  nothing.
\<close>

definition print_tag :: "env \<Rightarrow> json \<Rightarrow> unit io" where
  "print_tag e tag t =
     (let text = ''tag='' @ py_str e tag @ [CHR 0x0A] in
      case stdout_error e text of
        None \<Rightarrow> (Inr (), t @ [Stdout text])
      | Some err \<Rightarrow> (Inl err, t))"

definition main :: "env \<Rightarrow> args \<Rightarrow> unit io" where
  "main e a =
     io_bind (get_docker_tags e (docker_tag a)) (\<lambda>tags.
     io_bind (select_tag e a) (\<lambda>tag.
       if \<not> py_in tag tags then print_tag e tag else io_pure (Inr ())))"

section \<open>Scenarios\<close>

text \<open>
  Concrete worlds on which the program is run below: a fixed instant, a network that serves
  a table of pages, one that is down, and ones that fail before they answer.
\<close>

definition instant :: timestamp where
  "instant = \<lparr>year = 2024, month = 3, day = 5, hour = 10, iso_week = 10\<rparr>"

definition bracket_format :: "json \<Rightarrow> string" where
  "bracket_format v = ''[...]''"

definition world :: "(nat \<Rightarrow> string \<Rightarrow> error + response) \<Rightarrow> env" where
  "world f =
     \<lparr>net = f, now = instant, py_format = bracket_format,
      sort_other = (\<lambda>kvs. Inl TypeError), unicode_digit = (\<lambda>c. No_digit),
      stdout_error = (\<lambda>text. None)\<rparr>"

definition ascii_only :: "string \<Rightarrow> error option" where
  "ascii_only text =
     (if list_all (\<lambda>c. (of_char c :: nat) < 128) text then None else Some UnicodeEncodeError)"

definition ok :: "json \<Rightarrow> error + response" where
  "ok payload = Inr \<lparr>status = 200, body = Inr payload\<rparr>"

definition serve :: "(string \<times> json) list \<Rightarrow> nat \<Rightarrow> string \<Rightarrow> error + response" where
  "serve pages n url = (case map_of pages url of None \<Rightarrow> Inl (HTTPError 404) | Some payload \<Rightarrow> ok payload)"

definition down :: "nat \<Rightarrow> string \<Rightarrow> error + response" where
  "down n url = Inl URLError"

definition flaky :: "json \<Rightarrow> nat \<Rightarrow> string \<Rightarrow> error + response" where
  "flaky payload n url =
     (if n = 0 then Inl URLError
      else if n = 1 then Inr \<lparr>status = 204, body = Inl JSONDecodeError\<rparr>
      else ok payload)"

definition recovering :: "json \<Rightarrow> nat \<Rightarrow> string \<Rightarrow> error + response" where
  "recovering payload n url = (if n = 0 then Inl (HTTPError 503) else ok payload)"

definition release_file :: "bool \<Rightarrow> string \<Rightarrow> json" where
  "release_file yanked time =
     JObj [(''yanked'', JBool yanked), (''upload_time_iso_8601'', JStr time)]"

definition index_page :: json where
  "index_page =
     JObj [(''releases'', JObj
       [(''1.0.0'', JArr [release_file False ''2024-01-10T08:00:00.000000Z'']),
        (''1.1.0'', JArr [release_file False ''2024-02-20T09:30:00.000000Z''])])]"

definition tags_page :: "string list \<Rightarrow> json" where
  "tags_page names = JObj [(''results'', JArr (map (\<lambda>name. JObj [(''name'', JStr name)]) names))]"

definition no_args :: args where
  "no_args =
     \<lparr>docker_tag = '''', pip = None, npm = None, go = None, gh_commit = None, gh_tag = None,
      gh_release = None, gh_deployment = None, gl_commit = None, gl_tag = None, cr = None\<rparr>"

definition sparse_releases :: "(string \<times> json) list" where
  "sparse_releases =
     [(''1.0.0'', JArr []),
      (''1.1.0'', JArr [release_file False ''2024-02-20T09:30:00.000000Z''])]"

definition mixed_releases :: "(string \<times> json) list" where
  "mixed_releases =
     [(''2.0.0'', JArr [release_file False ''2024-03-01T12:00:00.000000Z'']),
      (''1.0.0'', JArr [release_file False ''2023-01-15T07:45:00.000000Z'']),
      (''1.5.0'', JArr [release_file True ''2023-06-30T18:20:00.000000Z'']),
      (''0.9.0'', JArr [])]"

definition release_entry :: "string \<Rightarrow> bool \<Rightarrow> bool \<Rightarrow> json" where
  "release_entry tag draft prerelease =
     JObj [(''tag_name'', JStr tag), (''draft'', JBool draft), (''prerelease'', JBool prerelease)]"

definition releases_page :: json where
  "releases_page = JArr [release_entry ''v2'' False False, release_entry ''v1'' False True]"

definition listing_entry :: "string \<Rightarrow> string \<Rightarrow> json" where
  "listing_entry sha name = JObj [(''sha'', JStr sha), (''name'', JStr name)]"

definition listing_page :: json where
  "listing_page =
     JArr [listing_entry ''c3c3c3'' ''v3'', listing_entry ''b2b2b2'' ''v2'',
           listing_entry ''a1a1a1'' ''v1'']"

definition tags_url :: string where
  "tags_url = ''https://api.github.com/repos/octocat/hello-world/tags''"

definition deployments_url :: string where
  "deployments_url = ''https://api.github.com/repos/octocat/hello-world/deployments''"

definition releases_url :: string where
  "releases_url = ''https://api.github.com/repos/octocat/hello-world/releases''"

definition docs_commits_url :: string where
  "docs_commits_url =
     ''https://ghe.example.com/api/v3/repos/octocat/hello-world/commits?sha=main&path=docs''"

definition hosting :: "nat \<Rightarrow> string \<Rightarrow> error + response" where
  "hosting =
     serve [(tags_url, listing_page), (deployments_url, listing_page),
            (docs_commits_url, listing_page), (releases_url, releases_page)]"

definition index_url :: string where
  "index_url = ''https://pypi.org/pypi/demo/json''"

definition package_url :: string where
  "package_url = ''https://registry.npmjs.org/demo''"

definition latest_page :: "json \<Rightarrow> json" where
  "latest_page version = JObj [(''dist-tags'', JObj [(''latest'', version)])]"

definition accented :: string where
  "accented = ''1.1.0-caf'' @ [CHR 0xC3, CHR 0xA9]"

definition registry_url :: string where
  "registry_url = ''https://hub.docker.com/v2/repositories/me/img/tags''"

section \<open>The words of the specification\<close>

text \<open>No provider selector is active.\<close>

definition no_provider :: "args \<Rightarrow> bool" where
  "no_provider a =
     (\<not> given (pip a) \<and> \<not> given (npm a) \<and> \<not> given (go a) \<and> \<not> given (gh_commit a)
      \<and> \<not> given (gh_tag a) \<and> \<not> given (gh_release a) \<and> \<not> given (gh_deployment a)
      \<and> \<not> given (gl_commit a) \<and> \<not> given (gl_tag a) \<and> \<not> given (cr a))"

text \<open>The field of an entry of a response, when the entry is an object that has it.\<close>

fun field_of :: "string \<Rightarrow> json \<Rightarrow> json option" where
  "field_of key (JObj d) = map_of d key"
| "field_of key _ = None"

text \<open>
  A release of the package index is the list of its files. It is marked yanked by the flag
  of its first file; its upload timestamp is that file's. \<open>release_ok\<close> is the shape of a
  release in the index: a list of files, the first of which has the flag and a timestamp
  string.
\<close>

fun first_file :: "json \<Rightarrow> json option" where
  "first_file (JArr (f # fs)) = Some f"
| "first_file _ = None"

definition has_files :: "json \<Rightarrow> bool" where
  "has_files files = (first_file files \<noteq> None)"

definition yanked :: "json \<Rightarrow> bool" where
  "yanked files =
     (case first_file files of
        None \<Rightarrow> False
      | Some f \<Rightarrow> (case field_of ''yanked'' f of None \<Rightarrow> False | Some y \<Rightarrow> py_truthy y))"

definition uploaded :: "json \<Rightarrow> string" where
  "uploaded files =
     (case first_file files of
        None \<Rightarrow> ''''
      | Some f \<Rightarrow> (case field_of ''upload_time_iso_8601'' f of Some (JStr s) \<Rightarrow> s | _ \<Rightarrow> ''''))"

fun release_ok :: "json \<Rightarrow> bool" where
  "release_ok (JArr []) = True"
| "release_ok (JArr (f # fs)) =
     (field_of ''yanked'' f \<noteq> None
      \<and> (case field_of ''upload_time_iso_8601'' f of Some (JStr s) \<Rightarrow> True | _ \<Rightarrow> False))"
| "release_ok _ = False"




text \<open>
  A reference to commits decomposes when what is left of it, once the base after the first
  \<open>@\<close> and the branch after the first \<open>:\<close> are cut off, has a \<open>/\<close>.
\<close>

definition decomposes :: "string \<Rightarrow> bool" where
  "decomposes repository =
     (CHR ''/'' \<in> set (takeWhile (\<lambda>c. c \<noteq> CHR '':'')
                        (takeWhile (\<lambda>c. c \<noteq> CHR ''@'') repository)))"

text \<open>
  The URLs of the git hosting listings, read off a reference: what stands before the first
  \<open>@\<close> names the repository and what stands after it is the base, by default the public
  API; for commits, what stands after the first \<open>:\<close> of the name is the branch, and what
  stands after the second \<open>/\<close> is the path.
\<close>

definition before :: "char \<Rightarrow> string \<Rightarrow> string" where
  "before c s = takeWhile (\<lambda>x. x \<noteq> c) s"

definition after :: "char \<Rightarrow> string \<Rightarrow> string" where
  "after c s = tl (dropWhile (\<lambda>x. x \<noteq> c) s)"

definition gh_base :: "string \<Rightarrow> string" where
  "gh_base repository =
     (if CHR ''@'' \<in> set repository then after CHR ''@'' repository
      else ''https://api.github.com'')"

definition listing_url :: "string \<Rightarrow> string \<Rightarrow> string" where
  "listing_url repository listing =
     gh_base repository @ ''/repos/'' @ before CHR ''@'' repository @ ''/'' @ listing"

definition commits_url :: "string \<Rightarrow> string" where
  "commits_url repository =
     (let reference = before CHR ''@'' repository;
          name = before CHR '':'' reference
      in gh_base repository @ ''/repos/'' @ before CHR ''/'' name @ ''/''
           @ before CHR ''/'' (after CHR ''/'' name)
           @ ''/commits?sha='' @ after CHR '':'' reference
           @ ''&path='' @ after CHR ''/'' (after CHR ''/'' name))"



text \<open>The lines of a text: each ends at a line feed, the last one also at the end.\<close>

function lines_of :: "string \<Rightarrow> string list" where
  "lines_of s =
     (if s = [] then []
      else takeWhile (\<lambda>c. c \<noteq> CHR 0x0A) s # lines_of (tl (dropWhile (\<lambda>c. c \<noteq> CHR 0x0A) s)))"
  by pat_completeness auto
termination
proof (relation "measure length")
  fix s :: string
  assume "s \<noteq> []"
  moreover have "length (dropWhile (\<lambda>c. c \<noteq> CHR 0x0A) s) \<le> length s"
    by (rule length_dropWhile_le)
  ultimately show "(tl (dropWhile (\<lambda>c. c \<noteq> CHR 0x0A) s), s) \<in> measure length"
    by (cases s) auto
qed simp

declare lines_of.simps [simp del]

text \<open>
  The versions the specification lists for a package, in its words: the releases that are
  not marked yanked, ascending by upload timestamp. \<open>listed\<close> is what the code lists: of
  these, the releases that have a file.
\<close>

definition unyanked :: "(string \<times> json) list \<Rightarrow> string list" where
  "unyanked releases =
     map fst (sort_key (\<lambda>kv. uploaded (snd kv)) (filter (\<lambda>kv. \<not> yanked (snd kv)) releases))"

definition listed :: "(string \<times> json) list \<Rightarrow> string list" where
  "listed releases =
     map fst (sort_key (\<lambda>kv. uploaded (snd kv))
                (filter (\<lambda>kv. has_files (snd kv) \<and> \<not> yanked (snd kv)) releases))"

section \<open>Properties of the fetcher\<close>

lemma requests_of_append: "requests_of (t @ u) = requests_of t @ requests_of u"
  by (induction t rule: requests_of.induct) auto

lemma sleeps_of_append: "sleeps_of (t @ u) = sleeps_of t @ sleeps_of u"
  by (induction t rule: sleeps_of.induct) auto

lemma stdout_of_append: "stdout_of (t @ u) = stdout_of t @ stdout_of u"
  by (induction t rule: stdout_of.induct) auto

text \<open>One step of the fetcher, by the outcome of the attempt and the retries left.\<close>

lemma urlopen_first_fail:
  "attempt e (length (requests_of t)) url = Inl x \<Longrightarrow>
   urlopen e url RETRIES t =
     urlopen e url 2 (t @ [Stderr_url url, Request url, Stderr_sleep 30, Sleep 30])"
  by (subst urlopen.simps) (simp add: Let_def RETRIES_def requests_of_append)

lemma urlopen_retry_fail:
  "attempt e (length (requests_of t)) url = Inl x \<Longrightarrow> Suc n < RETRIES \<Longrightarrow>
   urlopen e url (Suc n) t =
     urlopen e url n (t @ [Request url, Stderr_sleep (30 * (int RETRIES - int n)),
                            Sleep (30 * (int RETRIES - int n))])"
  by (subst urlopen.simps) (simp add: Let_def RETRIES_def)

lemma urlopen_first_ok:
  "attempt e (length (requests_of t)) url = Inr r \<Longrightarrow>
   urlopen e url RETRIES t = (Inr r, t @ [Stderr_url url, Request url])"
  by (subst urlopen.simps) (simp add: Let_def requests_of_append)

lemma urlopen_retry_ok:
  "attempt e (length (requests_of t)) url = Inr r \<Longrightarrow> n < RETRIES \<Longrightarrow>
   urlopen e url n t = (Inr r, t @ [Request url])"
  by (subst urlopen.simps) (simp add: Let_def)

lemma urlopen_last_fail:
  "attempt e (length (requests_of t)) url = Inl x \<Longrightarrow>
   urlopen e url 0 t = (Inl x, t @ [Request url])"
  by (subst urlopen.simps) (simp add: Let_def RETRIES_def)

lemma urlopen_two_failures:
  assumes "attempt e (length (requests_of t)) url = Inl x0"
    and "attempt e (length (requests_of t) + 1) url = Inl x1"
  shows "urlopen e url RETRIES t =
           urlopen e url 1 (t @ [Stderr_url url, Request url, Stderr_sleep 30, Sleep 30,
                                 Request url, Stderr_sleep 60, Sleep 60])"
proof -
  let ?t1 = "t @ [Stderr_url url, Request url, Stderr_sleep 30, Sleep 30]"
  have "urlopen e url RETRIES t = urlopen e url 2 ?t1"
    using assms(1) by (rule urlopen_first_fail)
  moreover have "attempt e (length (requests_of ?t1)) url = Inl x1"
    using assms(2) by (simp add: requests_of_append)
  then have "urlopen e url (Suc 1) ?t1
               = urlopen e url 1 (?t1 @ [Request url, Stderr_sleep 60, Sleep 60])"
    using urlopen_retry_fail [of e ?t1 url x1 1] by (simp add: RETRIES_def)
  ultimately show ?thesis by (simp add: numeral_2_eq_2)
qed

text \<open>
  C3. Whatever the URL: when the first two attempts fail (the request raises, or the status
  is not 200) and the third succeeds, the fetcher returns the response of the third attempt,
  and on the way it has issued three requests for the URL and slept twice, 30 and then 60.
\<close>

theorem urlopen_third_attempt:
  assumes "attempt e (length (requests_of t)) url = Inl x0"
    and "attempt e (length (requests_of t) + 1) url = Inl x1"
    and "attempt e (length (requests_of t) + 2) url = Inr r"
  shows "fst (urlopen e url RETRIES t) = Inr r
         \<and> sleeps_of (snd (urlopen e url RETRIES t)) = sleeps_of t @ [30, 60]
         \<and> requests_of (snd (urlopen e url RETRIES t)) = requests_of t @ [url, url, url]"
proof -
  let ?t2 = "t @ [Stderr_url url, Request url, Stderr_sleep 30, Sleep 30,
                  Request url, Stderr_sleep 60, Sleep 60]"
  have "attempt e (length (requests_of ?t2)) url = Inr r"
    using assms(3) by (simp add: requests_of_append)
  then have "urlopen e url 1 ?t2 = (Inr r, ?t2 @ [Request url])"
    by (rule urlopen_retry_ok) (simp add: RETRIES_def)
  then have "urlopen e url RETRIES t = (Inr r, ?t2 @ [Request url])"
    using urlopen_two_failures [OF assms(1) assms(2)] by simp
  then show ?thesis
    by (simp add: requests_of_append sleeps_of_append)
qed

theorem urlopen_third_attempt_witness:
  "attempt (world (flaky JNull)) 0 ''https://proxy.golang.org/m/@latest'' = Inl URLError
   \<and> attempt (world (flaky JNull)) 1 ''https://proxy.golang.org/m/@latest'' = Inl AssertionError
   \<and> fst (urlopen (world (flaky JNull)) ''https://proxy.golang.org/m/@latest'' RETRIES [])
       = Inr \<lparr>status = 200, body = Inr JNull\<rparr>
   \<and> sleeps_of (snd (urlopen (world (flaky JNull)) ''https://proxy.golang.org/m/@latest''
                        RETRIES [])) = [30, 60]
   \<and> requests_of (snd (urlopen (world (flaky JNull)) ''https://proxy.golang.org/m/@latest''
                          RETRIES []))
       = [''https://proxy.golang.org/m/@latest'', ''https://proxy.golang.org/m/@latest'',
          ''https://proxy.golang.org/m/@latest'']"
proof -
  let ?e = "world (flaky JNull)"
  let ?url = "''https://proxy.golang.org/m/@latest''"
  have a: "attempt ?e (length (requests_of [])) ?url = Inl URLError"
    by (simp add: attempt_def world_def flaky_def)
  have b: "attempt ?e (length (requests_of []) + 1) ?url = Inl AssertionError"
    by (simp add: attempt_def world_def flaky_def)
  have c: "attempt ?e (length (requests_of []) + 2) ?url = Inr \<lparr>status = 200, body = Inr JNull\<rparr>"
    by (simp add: attempt_def world_def flaky_def ok_def)
  show ?thesis
    using urlopen_third_attempt [OF a b c] a b by simp
qed

text \<open>
  C7. Whatever the URL: when the first attempt and the three retries all fail, the fetcher
  stops there. It has issued four requests and slept 30, 60 and 90 between them, and the
  failure of the fourth attempt is what the caller gets: no response is returned.
\<close>

theorem urlopen_exhausted:
  assumes "attempt e (length (requests_of t)) url = Inl x0"
    and "attempt e (length (requests_of t) + 1) url = Inl x1"
    and "attempt e (length (requests_of t) + 2) url = Inl x2"
    and "attempt e (length (requests_of t) + 3) url = Inl x3"
  shows "urlopen e url RETRIES t =
           (Inl x3, t @ [Stderr_url url, Request url, Stderr_sleep 30, Sleep 30,
                         Request url, Stderr_sleep 60, Sleep 60,
                         Request url, Stderr_sleep 90, Sleep 90, Request url])"
proof -
  let ?t2 = "t @ [Stderr_url url, Request url, Stderr_sleep 30, Sleep 30,
                  Request url, Stderr_sleep 60, Sleep 60]"
  let ?t3 = "?t2 @ [Request url, Stderr_sleep 90, Sleep 90]"
  have a: "urlopen e url RETRIES t = urlopen e url 1 ?t2"
    using assms(1) assms(2) by (rule urlopen_two_failures)
  have "attempt e (length (requests_of ?t2)) url = Inl x2"
    using assms(3) by (simp add: requests_of_append)
  then have b: "urlopen e url (Suc 0) ?t2 = urlopen e url 0 ?t3"
    using urlopen_retry_fail [of e ?t2 url x2 0] by (simp add: RETRIES_def)
  have "attempt e (length (requests_of ?t3)) url = Inl x3"
    using assms(4) by (simp add: requests_of_append eval_nat_numeral)
  then have c: "urlopen e url 0 ?t3 = (Inl x3, ?t3 @ [Request url])"
    by (rule urlopen_last_fail)
  from a b c show ?thesis by simp
qed

theorem urlopen_exhausted_witness:
  "attempt (world down) 3 ''https://registry.npmjs.org/left-pad'' = Inl URLError
   \<and> fst (urlopen (world down) ''https://registry.npmjs.org/left-pad'' RETRIES []) = Inl URLError
   \<and> requests_of (snd (urlopen (world down) ''https://registry.npmjs.org/left-pad'' RETRIES []))
       = replicate 4 ''https://registry.npmjs.org/left-pad''
   \<and> sleeps_of (snd (urlopen (world down) ''https://registry.npmjs.org/left-pad'' RETRIES []))
       = [30, 60, 90]"
proof -
  have a: "attempt (world down) n ''https://registry.npmjs.org/left-pad'' = Inl URLError" for n
    by (simp add: attempt_def world_def down_def)
  show ?thesis
    using urlopen_exhausted [OF a a a a, of "[]"] a [of 3]
    by (simp add: eval_nat_numeral)
qed

section \<open>Properties of the reference decomposition\<close>

lemma py_split_cut:
  "sep \<notin> set a \<Longrightarrow> py_split sep (Suc n) (a @ sep # rest) = a # py_split sep n rest"
proof -
  assume a: "sep \<notin> set a"
  then have "takeWhile (\<lambda>c. c \<noteq> sep) (a @ sep # rest) = a"
    by (induction a) auto
  moreover from a have "dropWhile (\<lambda>c. c \<noteq> sep) (a @ sep # rest) = sep # rest"
    by (induction a) auto
  ultimately show ?thesis by simp
qed

lemma py_split_whole: "sep \<notin> set s \<Longrightarrow> py_split sep n s = [s]"
  by (cases n) simp_all

lemma count_list_0: "count_list s c = 0 \<longleftrightarrow> c \<notin> set s"
  by (induction s) auto

lemma count_list_one:
  "count_list s c = 1 \<Longrightarrow> \<exists>a b. s = a @ c # b \<and> c \<notin> set a \<and> c \<notin> set b"
proof (induction s)
  case Nil
  then show ?case by simp
next
  case (Cons x s)
  show ?case
  proof (cases "x = c")
    case True
    with Cons.prems have "c \<notin> set s" by (simp add: count_list_0)
    with True show ?thesis by (intro exI [of _ "[]"] exI [of _ s]) simp
  next
    case False
    with Cons obtain a b where "s = a @ c # b" "c \<notin> set a" "c \<notin> set b" by auto
    with False show ?thesis by (intro exI [of _ "x # a"] exI [of _ b]) simp
  qed
qed

text \<open>
  C9. A reference with exactly one \<open>/\<close> is taken whole as \<open>owner/repo\<close>, and its path is
  empty.
\<close>

theorem get_repository_path_one_separator:
  assumes "count_list repository CHR ''/'' = 1"
  shows "get_repository_path repository = Inr (repository, '''')"
proof -
  obtain a b where s: "repository = a @ CHR ''/'' # b" "CHR ''/'' \<notin> set a" "CHR ''/'' \<notin> set b"
    using count_list_one [OF assms] by blast
  have "py_split CHR ''/'' 2 (a @ CHR ''/'' # (b @ ''/'')) = [a, b, '''']"
    using s(2,3) py_split_cut [of "CHR ''/''" a 1 "b @ ''/''"]
      py_split_cut [of "CHR ''/''" b 0 "''''"]
    by (simp add: numeral_2_eq_2)
  with assms s show ?thesis
    by (simp add: get_repository_path_def unpack3_def and_then_def)
qed

theorem get_repository_path_one_separator_witness:
  "count_list ''octocat/hello-world'' CHR ''/'' = 1
   \<and> get_repository_path ''octocat/hello-world'' = Inr (''octocat/hello-world'', '''')"
proof -
  have one: "count_list ''octocat/hello-world'' CHR ''/'' = 1"
    by simp
  from get_repository_path_one_separator [OF one] one show ?thesis
    by simp
qed

section \<open>Properties of the published tags\<close>

text \<open>
  C8. For the empty artifact repository the published tags are the empty list, returned at
  once: the trace is unchanged, so no request is issued, and nothing is raised.
\<close>

theorem get_docker_tags_empty: "get_docker_tags e '''' t = (Inr [], t)"
  by (simp add: get_docker_tags_def io_pure_def)

theorem get_docker_tags_empty_witness:
  "get_docker_tags (world down) '''' [] = (Inr [], [])
   \<and> requests_of (snd (get_docker_tags (world down) '''' [])) = []"
  using get_docker_tags_empty [of "world down" "[]"] by simp

section \<open>Properties of the git hosting providers\<close>

lemma io_bind_pure [simp]: "io_bind (io_pure (Inr v)) f t = f v t"
  by (simp add: io_bind_def io_pure_def)

lemma io_bind_raise [simp]: "io_bind (io_pure (Inl x)) f t = (Inl x, t)"
  by (simp add: io_bind_def io_pure_def)

lemma io_bind_step: "m t = (Inr v, t') \<Longrightarrow> io_bind m f t = f v t'"
  by (simp add: io_bind_def)

lemma io_bind_fail: "m t = (Inl x, t') \<Longrightarrow> io_bind m f t = (Inl x, t')"
  by (simp add: io_bind_def)

lemma and_then_Inr [simp]: "and_then (Inr v) f = f v"
  by (simp add: and_then_def)

lemma and_then_Inl [simp]: "and_then (Inl x) f = Inl x"
  by (simp add: and_then_def)

lemma field_of_getitem: "field_of key x = Some v \<Longrightarrow> py_getitem x (JStr key) = Inr v"
  by (cases x) simp_all

lemma collect_fields:
  "map (field_of key) xs = map Some ys \<Longrightarrow>
   collect (\<lambda>result. and_then (py_getitem result (JStr key)) (\<lambda>v. Inr (Some v))) xs = Inr ys"
proof (induction xs arbitrary: ys)
  case Nil
  then show ?case by simp
next
  case (Cons x xs)
  then obtain y ys' where ys: "ys = y # ys'" "field_of key x = Some y"
    "map (field_of key) xs = map Some ys'"
    by (cases ys) auto
  with Cons.IH [of ys'] show ?case
    by (simp add: field_of_getitem)
qed

lemma reversed_fields_array:
  assumes "body r = Inr (JArr entries)" and "map (field_of key) entries = map Some ids"
  shows "reversed_fields r key = Inr (rev ids)"
proof -
  from assms(2) have "map (field_of key) (rev entries) = map Some (rev ids)"
    by (simp add: rev_map [symmetric])
  then show ?thesis
    using assms(1) by (simp add: reversed_fields_def py_reversed_def collect_fields)
qed

lemma py_index_last: "py_index (ys @ [y]) (- 1) = Inr y"
  by (simp add: py_index_def nth_append)

lemma latest_of:
  "m t = (Inr xs, t') \<Longrightarrow> xs \<noteq> [] \<Longrightarrow> latest m t = (Inr (last xs), t')"
  by (cases xs rule: rev_cases) (simp_all add: latest_def io_bind_def io_pure_def py_index_last)

lemma latest_fst:
  "fst (m t) = Inr xs \<Longrightarrow> xs \<noteq> [] \<Longrightarrow> fst (latest m t) = Inr (last xs)"
  using latest_of [of m t xs "snd (m t)"] by (cases "m t") simp

lemma takeWhile_cut: "sep \<notin> set a \<Longrightarrow> takeWhile (\<lambda>c. c \<noteq> sep) (a @ sep # rest) = a"
  by (induction a) auto

lemma dropWhile_cut: "sep \<notin> set a \<Longrightarrow> dropWhile (\<lambda>c. c \<noteq> sep) (a @ sep # rest) = sep # rest"
  by (induction a) auto

lemma py_split_once:
  "py_split sep (Suc 0) (r @ sep # d) =
     [takeWhile (\<lambda>c. c \<noteq> sep) r,
      if sep \<in> set r then tl (dropWhile (\<lambda>c. c \<noteq> sep) r) @ sep # d else d]"
proof (cases "sep \<in> set r")
  case True
  then obtain a b where r: "r = a @ sep # b" "sep \<notin> set a"
    by (meson split_list_first)
  then have "py_split sep (Suc 0) (a @ sep # (b @ sep # d)) = [a, b @ sep # d]"
    using py_split_cut [of sep a 0 "b @ sep # d"] by simp
  with r True show ?thesis
    by (simp add: takeWhile_cut dropWhile_cut)
next
  case False
  then have tw: "takeWhile (\<lambda>c. c \<noteq> sep) r = r"
    by (auto simp: takeWhile_eq_all_conv)
  show ?thesis
    unfolding tw using False py_split_cut [of sep r 0 d] by simp
qed

lemma py_split_once_in:
  assumes "sep \<in> set r"
  shows "py_split sep (Suc 0) r =
           [takeWhile (\<lambda>c. c \<noteq> sep) r, tl (dropWhile (\<lambda>c. c \<noteq> sep) r)]"
proof -
  obtain a b where r: "r = a @ sep # b" "sep \<notin> set a"
    using assms by (meson split_list_first)
  then show ?thesis
    using py_split_cut [of sep a 0 b] by (simp add: takeWhile_cut dropWhile_cut)
qed

lemma base_split:
  "unpack2 (get_repository_base r d) =
     Inr (takeWhile (\<lambda>c. c \<noteq> CHR ''@'') r,
          if CHR ''@'' \<in> set r then tl (dropWhile (\<lambda>c. c \<noteq> CHR ''@'') r) else d)"
proof (cases "CHR ''@'' \<in> set r")
  case True
  then show ?thesis
    by (simp add: get_repository_base_def SEP_BASE_def unpack2_def py_split_once_in
        del: py_split.simps)
next
  case False
  then show ?thesis
    by (simp add: get_repository_base_def SEP_BASE_def unpack2_def py_split_once
        del: py_split.simps)
qed

lemma branch_split:
  "unpack2 (get_repository_branch r) =
     Inr (takeWhile (\<lambda>c. c \<noteq> CHR '':'') r,
          if CHR '':'' \<in> set r then tl (dropWhile (\<lambda>c. c \<noteq> CHR '':'') r) else '''')"
proof (cases "CHR '':'' \<in> set r")
  case True
  then show ?thesis
    by (simp add: get_repository_branch_def SEP_BRANCH_def unpack2_def py_split_once_in
        del: py_split.simps)
next
  case False
  then show ?thesis
    using py_split_once [of "CHR '':''" r "[]"]
    by (simp add: get_repository_branch_def SEP_BRANCH_def DEFAULT_BRANCH_def unpack2_def
        del: py_split.simps)
qed

lemma path_split_fails: "CHR ''/'' \<notin> set r \<Longrightarrow> get_repository_path r = Inl ValueError"
  by (simp add: get_repository_path_def count_list_0 py_split_whole unpack3_def)

lemma path_split_ok:
  assumes "CHR ''/'' \<in> set r"
  shows "\<exists>p q. get_repository_path r = Inr (p, q)"
proof -
  obtain a b where r: "r = a @ CHR ''/'' # b" "CHR ''/'' \<notin> set a"
    using assms by (meson split_list_first)
  show ?thesis
  proof (cases "CHR ''/'' \<in> set b")
    case True
    then have "count_list b CHR ''/'' \<noteq> 0"
      by (simp add: count_list_0)
    with r have more: "count_list r CHR ''/'' \<noteq> 1"
      by (simp add: count_list_0 [THEN iffD2])
    from True have "py_split CHR ''/'' (Suc 0) b
        = [takeWhile (\<lambda>c. c \<noteq> CHR ''/'') b, tl (dropWhile (\<lambda>c. c \<noteq> CHR ''/'') b)]"
      by (rule py_split_once_in)
    with r have "py_split CHR ''/'' 2 r
        = [a, takeWhile (\<lambda>c. c \<noteq> CHR ''/'') b, tl (dropWhile (\<lambda>c. c \<noteq> CHR ''/'') b)]"
      using py_split_cut [of "CHR ''/''" a 1 b] by (simp add: numeral_2_eq_2 del: py_split.simps)
    with more show ?thesis
      by (simp add: get_repository_path_def unpack3_def)
  next
    case False
    with r have one: "count_list r CHR ''/'' = 1"
      by (simp add: count_list_0 [THEN iffD2])
    from False r have "py_split CHR ''/'' 2 (r @ ''/'') = [a, b, '''']"
      using py_split_cut [of "CHR ''/''" a 1 "b @ ''/''"] py_split_cut [of "CHR ''/''" b 0 "''''"]
      by (simp add: numeral_2_eq_2)
    with one show ?thesis
      by (simp add: get_repository_path_def unpack3_def)
  qed
qed

lemma fetch_at:
  assumes "urlopen e url RETRIES t = (Inr r, t1)"
  shows "io_bind (urlopen e url RETRIES) (\<lambda>response. io_pure (f response)) t = (f r, t1)"
  using assms by (simp add: io_bind_def io_pure_def)

lemma gh_base_split:
  "unpack2 (get_gh_repository_base r) = Inr (before CHR ''@'' r, gh_base r)"
  by (simp add: get_gh_repository_base_def base_split before_def after_def gh_base_def
      DEFAULT_GH_BASE_def)

lemma after_none: "c \<notin> set s \<Longrightarrow> after c s = []"
  by (induction s) (auto simp: after_def)

lemma before_none: "c \<notin> set s \<Longrightarrow> before c s = s"
  by (induction s) (auto simp: before_def)

lemma branch_cut:
  "unpack2 (get_repository_branch r) = Inr (before CHR '':'' r, after CHR '':'' r)"
proof (cases "CHR '':'' \<in> set r")
  case True
  then show ?thesis
    by (simp add: branch_split before_def after_def)
next
  case False
  then show ?thesis
    by (simp add: branch_split after_none) (simp add: before_def)
qed

lemma path_cut:
  assumes "CHR ''/'' \<in> set r"
  shows "get_repository_path r =
           Inr (before CHR ''/'' r @ ''/'' @ before CHR ''/'' (after CHR ''/'' r),
                after CHR ''/'' (after CHR ''/'' r))"
proof -
  obtain a b where r: "r = a @ CHR ''/'' # b" "CHR ''/'' \<notin> set a"
    using assms by (meson split_list_first)
  then have cut: "before CHR ''/'' r = a" "after CHR ''/'' r = b"
    by (simp_all add: before_def after_def takeWhile_cut dropWhile_cut)
  show ?thesis
  proof (cases "CHR ''/'' \<in> set b")
    case True
    then have "count_list b CHR ''/'' \<noteq> 0"
      by (simp add: count_list_0)
    with r have more: "count_list r CHR ''/'' \<noteq> 1"
      by (simp add: count_list_0 [THEN iffD2])
    from True have "py_split CHR ''/'' (Suc 0) b = [before CHR ''/'' b, after CHR ''/'' b]"
      unfolding before_def after_def by (rule py_split_once_in)
    with r have "py_split CHR ''/'' 2 r = [a, before CHR ''/'' b, after CHR ''/'' b]"
      using py_split_cut [of "CHR ''/''" a 1 b] by (simp add: numeral_2_eq_2 del: py_split.simps)
    with more show ?thesis
      by (simp add: get_repository_path_def unpack3_def cut)
  next
    case False
    with r have one: "count_list r CHR ''/'' = 1"
      by (simp add: count_list_0 [THEN iffD2])
    from False have rest: "before CHR ''/'' b = b" "after CHR ''/'' b = []"
      by (simp_all add: before_none after_none)

    from False r have "py_split CHR ''/'' 2 (r @ ''/'') = [a, b, '''']"
      using py_split_cut [of "CHR ''/''" a 1 "b @ ''/''"] py_split_cut [of "CHR ''/''" b 0 "''''"]
      by (simp add: numeral_2_eq_2)
    with one show ?thesis
      by (simp add: get_repository_path_def unpack3_def cut rest)
  qed
qed

lemma get_gh_tags_at:
  assumes "urlopen e (listing_url repository ''tags'') RETRIES t = (Inr r, t1)"
  shows "get_gh_tags e repository t = (reversed_fields r ''name'', t1)"
  using assms
  by (simp add: get_gh_tags_def gh_base_split listing_url_def fetch_at)

lemma get_gh_deployments_at:
  assumes "urlopen e (listing_url repository ''deployments'') RETRIES t = (Inr r, t1)"
  shows "get_gh_deployments e repository t = (reversed_fields r ''sha'', t1)"
  using assms
  by (simp add: get_gh_deployments_def gh_base_split listing_url_def fetch_at)

lemma get_gh_commits_at:
  assumes "decomposes repository"
    and "urlopen e (commits_url repository) RETRIES t = (Inr r, t1)"
  shows "get_gh_commits e repository t = (reversed_fields r ''sha'', t1)"
proof -
  from assms(1) have "CHR ''/'' \<in> set (before CHR '':'' (before CHR ''@'' repository))"
    by (simp add: decomposes_def before_def)
  note path = path_cut [OF this]
  from assms(2) show ?thesis
    by (simp add: get_gh_commits_def gh_base_split branch_cut path commits_url_def Let_def
        fetch_at)
qed

lemma get_gh_commits_malformed:
  assumes "\<not> decomposes repository"
  shows "get_gh_commits e repository t = (Inl ValueError, t)"
proof -
  from assms have "CHR ''/'' \<notin> set (before CHR '':'' (before CHR ''@'' repository))"
    by (simp add: decomposes_def before_def)
  then have "get_repository_path (before CHR '':'' (before CHR ''@'' repository)) = Inl ValueError"
    by (rule path_split_fails)
  then show ?thesis
    by (simp add: get_gh_commits_def gh_base_split branch_cut)
qed

lemma latest_first:
  assumes "m t = (Inr (rev ids), t1)" and "ids \<noteq> []"
  shows "latest m t = (Inr (hd ids), t1)"
  using latest_of [of m t "rev ids" t1] assms by (simp add: last_rev)

text \<open>
  C5. When the fetch of a listing, at the URL of the listing for the reference, returns a
  response whose payload is the list \<open>entries\<close>, and \<open>ids\<close> are the identifiers of the
  entries in the order of the response (their \<open>sha\<close> for commits and deployments, their
  \<open>name\<close> for tags), then the provider returns exactly the reverse of \<open>ids\<close>, and its
  latest, the last element of that list, is the first entry of the response. For commits
  the reference has to decompose; otherwise unpacking it raises before any request.
\<close>

theorem gh_listings_reversed:
  assumes "body r = Inr (JArr entries)"
  shows "(decomposes repository
          \<and> urlopen e (commits_url repository) RETRIES t = (Inr r, t1)
          \<and> map (field_of ''sha'') entries = map Some ids \<longrightarrow>
            get_gh_commits e repository t = (Inr (rev ids), t1)
            \<and> (ids \<noteq> [] \<longrightarrow> get_gh_commit e repository t = (Inr (hd ids), t1)))
       \<and> (\<not> decomposes repository \<longrightarrow> get_gh_commits e repository t = (Inl ValueError, t))
       \<and> (urlopen e (listing_url repository ''tags'') RETRIES t = (Inr r, t1)
          \<and> map (field_of ''name'') entries = map Some ids \<longrightarrow>
            get_gh_tags e repository t = (Inr (rev ids), t1)
            \<and> (ids \<noteq> [] \<longrightarrow> get_gh_tag e repository t = (Inr (hd ids), t1)))
       \<and> (urlopen e (listing_url repository ''deployments'') RETRIES t = (Inr r, t1)
          \<and> map (field_of ''sha'') entries = map Some ids \<longrightarrow>
            get_gh_deployments e repository t = (Inr (rev ids), t1)
            \<and> (ids \<noteq> [] \<longrightarrow> get_gh_deployment e repository t = (Inr (hd ids), t1)))"
proof -
  have commits: "get_gh_commits e repository t = (Inr (rev ids), t1)
            \<and> (ids \<noteq> [] \<longrightarrow> get_gh_commit e repository t = (Inr (hd ids), t1))"
    if "decomposes repository" "urlopen e (commits_url repository) RETRIES t = (Inr r, t1)"
      "map (field_of ''sha'') entries = map Some ids"
    using that assms
    by (simp add: get_gh_commits_at reversed_fields_array get_gh_commit_def latest_first)
  have tags: "get_gh_tags e repository t = (Inr (rev ids), t1)
            \<and> (ids \<noteq> [] \<longrightarrow> get_gh_tag e repository t = (Inr (hd ids), t1))"
    if "urlopen e (listing_url repository ''tags'') RETRIES t = (Inr r, t1)"
      "map (field_of ''name'') entries = map Some ids"
    using that assms
    by (simp add: get_gh_tags_at reversed_fields_array get_gh_tag_def latest_first)
  have deployments: "get_gh_deployments e repository t = (Inr (rev ids), t1)
            \<and> (ids \<noteq> [] \<longrightarrow> get_gh_deployment e repository t = (Inr (hd ids), t1))"
    if "urlopen e (listing_url repository ''deployments'') RETRIES t = (Inr r, t1)"
      "map (field_of ''sha'') entries = map Some ids"
    using that assms
    by (simp add: get_gh_deployments_at reversed_fields_array get_gh_deployment_def latest_first)
  from commits tags deployments get_gh_commits_malformed [of repository e t] show ?thesis
    by blast
qed

theorem gh_listings_reversed_witness:
  "commits_url ''octocat/hello-world/docs:main@https://ghe.example.com/api/v3'' = docs_commits_url
   \<and> decomposes ''octocat/hello-world/docs:main@https://ghe.example.com/api/v3''
   \<and> get_gh_commits (world hosting)
         ''octocat/hello-world/docs:main@https://ghe.example.com/api/v3'' []
       = (Inr [JStr ''a1a1a1'', JStr ''b2b2b2'', JStr ''c3c3c3''],
          [Stderr_url docs_commits_url, Request docs_commits_url])
   \<and> get_gh_commit (world hosting)
         ''octocat/hello-world/docs:main@https://ghe.example.com/api/v3'' []
       = (Inr (JStr ''c3c3c3''), [Stderr_url docs_commits_url, Request docs_commits_url])
   \<and> \<not> decomposes ''octocat''
   \<and> get_gh_commits (world hosting) ''octocat'' [] = (Inl ValueError, [])
   \<and> listing_url ''octocat/hello-world'' ''tags'' = tags_url
   \<and> get_gh_tags (world hosting) ''octocat/hello-world'' []
       = (Inr [JStr ''v1'', JStr ''v2'', JStr ''v3''], [Stderr_url tags_url, Request tags_url])
   \<and> get_gh_tag (world hosting) ''octocat/hello-world'' []
       = (Inr (JStr ''v3''), [Stderr_url tags_url, Request tags_url])
   \<and> listing_url ''octocat/hello-world'' ''deployments'' = deployments_url
   \<and> get_gh_deployments (world hosting) ''octocat/hello-world'' []
       = (Inr [JStr ''a1a1a1'', JStr ''b2b2b2'', JStr ''c3c3c3''],
          [Stderr_url deployments_url, Request deployments_url])
   \<and> get_gh_deployment (world hosting) ''octocat/hello-world'' []
       = (Inr (JStr ''c3c3c3''), [Stderr_url deployments_url, Request deployments_url])"
proof -
  let ?r = "\<lparr>status = 200, body = Inr listing_page\<rparr>"
  let ?entries = "[listing_entry ''c3c3c3'' ''v3'', listing_entry ''b2b2b2'' ''v2'',
                   listing_entry ''a1a1a1'' ''v1'']"
  let ?docs = "''octocat/hello-world/docs:main@https://ghe.example.com/api/v3''"
  let ?shas = "[JStr ''c3c3c3'', JStr ''b2b2b2'', JStr ''a1a1a1'']"
  let ?names = "[JStr ''v3'', JStr ''v2'', JStr ''v1'']"
  have page: "body ?r = Inr (JArr ?entries)"
    by (simp add: listing_page_def)
  have shas: "map (field_of ''sha'') ?entries = map Some ?shas"
    by (simp add: listing_entry_def)
  have names: "map (field_of ''name'') ?entries = map Some ?names"
    by (simp add: listing_entry_def)
  have docs_url: "commits_url ?docs = docs_commits_url"
    by code_simp
  have docs: "decomposes ?docs"
    by code_simp
  have bare: "\<not> decomposes ''octocat''"
    by code_simp
  have tags_at: "listing_url ''octocat/hello-world'' ''tags'' = tags_url"
    by code_simp
  have deployments_at: "listing_url ''octocat/hello-world'' ''deployments'' = deployments_url"
    by code_simp
  have fetch_commits: "urlopen (world hosting) (commits_url ?docs) RETRIES []
      = (Inr ?r, [Stderr_url docs_commits_url, Request docs_commits_url])"
    by code_simp
  have fetch_tags: "urlopen (world hosting) (listing_url ''octocat/hello-world'' ''tags'')
      RETRIES [] = (Inr ?r, [Stderr_url tags_url, Request tags_url])"
    by code_simp
  have fetch_deployments:
    "urlopen (world hosting) (listing_url ''octocat/hello-world'' ''deployments'')
      RETRIES [] = (Inr ?r, [Stderr_url deployments_url, Request deployments_url])"
    by code_simp
  note commits = gh_listings_reversed [OF page, of ?docs "world hosting" "[]" _ ?shas,
      THEN conjunct1, rule_format, OF conjI [OF docs conjI [OF fetch_commits shas]]]
  note malformed = gh_listings_reversed [OF page, of "''octocat''" "world hosting" "[]",
      THEN conjunct2, THEN conjunct1, rule_format, OF bare]
  note tags = gh_listings_reversed [OF page, of "''octocat/hello-world''" "world hosting" "[]"
      _ ?names, THEN conjunct2, THEN conjunct2, THEN conjunct1, rule_format,
      OF conjI [OF fetch_tags names]]
  note deployments = gh_listings_reversed [OF page, of "''octocat/hello-world''"
      "world hosting" "[]" _ ?shas, THEN conjunct2, THEN conjunct2, THEN conjunct2,
      rule_format, OF conjI [OF fetch_deployments shas]]
  from commits malformed tags deployments docs_url docs bare tags_at deployments_at
  show ?thesis
    by simp
qed










section \<open>Properties of the selector\<close>

text \<open>
  What one call of the fetcher adds to the trace: between one and four requests, all for
  the same URL, and nothing on standard output.
\<close>

lemma urlopen_trace:
  "\<exists>u k. snd (urlopen e url n t) = t @ u \<and> stdout_of u = [] \<and>
         requests_of u = replicate k url \<and> 1 \<le> k \<and> k \<le> Suc n"
proof (induction n arbitrary: t)
  case 0
  let ?t1 = "if RETRIES = 0 then t @ [Stderr_url url] else t"
  have "snd (urlopen e url 0 t) = ?t1 @ [Request url]"
    by (subst urlopen.simps) (simp add: Let_def split: sum.split)
  then show ?case
    by (intro exI [of _ "(if RETRIES = 0 then [Stderr_url url] else []) @ [Request url]"]
              exI [of _ 1]) simp
next
  case (Suc n)
  let ?pre = "if RETRIES = Suc n then [Stderr_url url] else []"
  let ?t1 = "if RETRIES = Suc n then t @ [Stderr_url url] else t"
  let ?sleep = "30 * (int RETRIES - int (Suc n) + 1)"
  let ?u3 = "?pre @ [Request url, Stderr_sleep ?sleep]"
  show ?case
  proof (cases "attempt e (length (requests_of ?t1)) url")
    case (Inr r)
    then have "urlopen e url (Suc n) t = (Inr r, ?t1 @ [Request url])"
      by (subst urlopen.simps) (simp add: Let_def)
    then show ?thesis
      by (intro exI [of _ "?pre @ [Request url]"] exI [of _ 1]) simp
  next
    case (Inl x)
    show ?thesis
    proof (cases "?sleep < 0")
      case True
      with Inl have "urlopen e url (Suc n) t
                       = (Inl ValueError, ?t1 @ [Request url, Stderr_sleep ?sleep])"
        by (subst urlopen.simps) (simp add: Let_def)
      then show ?thesis
        by (intro exI [of _ ?u3] exI [of _ 1]) simp
    next
      case False
      with Inl have eq: "urlopen e url (Suc n) t = urlopen e url n (t @ ?u3 @ [Sleep ?sleep])"
        by (subst urlopen.simps) (simp add: Let_def)
      obtain u k where k: "1 \<le> k" "k \<le> Suc n" "stdout_of u = []"
        "requests_of u = replicate k url"
        "snd (urlopen e url n (t @ ?u3 @ [Sleep ?sleep])) = (t @ ?u3 @ [Sleep ?sleep]) @ u"
        using Suc.IH by blast
      from k eq show ?thesis
        by (intro exI [of _ "?u3 @ [Sleep ?sleep] @ u"] exI [of _ "Suc k"])
           (simp add: requests_of_append stdout_of_append)
    qed
  qed
qed

lemma urlopen_silent: "stdout_of (snd (urlopen e url n t)) = stdout_of t"
  using urlopen_trace [of e url n t] by (auto simp: stdout_of_append)

lemma io_pure_silent: "stdout_of (snd (io_pure r t)) = stdout_of t"
  by (simp add: io_pure_def)

lemma io_bind_silent:
  assumes "\<And>t. stdout_of (snd (m t)) = stdout_of t"
    and "\<And>v t. stdout_of (snd (f v t)) = stdout_of t"
  shows "stdout_of (snd (io_bind m f t)) = stdout_of t"
proof (cases "m t")
  case (Pair res t')
  with assms(1) [of t] have "stdout_of t' = stdout_of t" by simp
  with Pair assms(2) show ?thesis
    by (cases res) (simp_all add: io_bind_def)
qed

lemma case_prod_silent:
  assumes "\<And>a b t. stdout_of (snd (f a b t)) = stdout_of t"
  shows "stdout_of (snd (case_prod f v t)) = stdout_of t"
  using assms by (cases v) simp

lemma latest_silent:
  assumes "\<And>t. stdout_of (snd (m t)) = stdout_of t"
  shows "stdout_of (snd (latest m t)) = stdout_of t"
  unfolding latest_def using assms by (intro io_bind_silent io_pure_silent)

lemmas silent = io_bind_silent io_pure_silent urlopen_silent case_prod_silent latest_silent

lemma get_docker_tags_silent: "stdout_of (snd (get_docker_tags e repository t)) = stdout_of t"
  unfolding get_docker_tags_def Let_def by (simp add: silent)

lemma get_pip_version_silent: "stdout_of (snd (get_pip_version e package t)) = stdout_of t"
  unfolding get_pip_version_def get_pip_version_2_def get_pip_versions_2_def Let_def
  by (intro silent)

lemma get_npm_version_silent: "stdout_of (snd (get_npm_version e package t)) = stdout_of t"
  unfolding get_npm_version_def get_npm_version_1_def Let_def
  by (intro silent)

lemma get_go_version_silent: "stdout_of (snd (get_go_version e package t)) = stdout_of t"
  unfolding get_go_version_def get_go_version_1_def Let_def
  by (intro silent)

lemma get_gh_commit_silent: "stdout_of (snd (get_gh_commit e repository t)) = stdout_of t"
  unfolding get_gh_commit_def get_gh_commits_def Let_def
  by (intro silent)

lemma get_gh_tag_silent: "stdout_of (snd (get_gh_tag e repository t)) = stdout_of t"
  unfolding get_gh_tag_def get_gh_tags_def Let_def
  by (intro silent)

lemma get_gh_release_silent: "stdout_of (snd (get_gh_release e repository t)) = stdout_of t"
  unfolding get_gh_release_def get_gh_release_2_def Let_def
  by (intro silent)

lemma get_gh_deployment_silent: "stdout_of (snd (get_gh_deployment e repository t)) = stdout_of t"
  unfolding get_gh_deployment_def get_gh_deployments_def Let_def
  by (intro silent)

lemma get_gl_repository_silent: "stdout_of (snd (get_gl_repository e repository base t)) = stdout_of t"
  unfolding get_gl_repository_def Let_def
  by (simp add: silent)

lemma get_gl_commit_silent: "stdout_of (snd (get_gl_commit e repository t)) = stdout_of t"
  unfolding get_gl_commit_def get_gl_commits_def Let_def
  by (intro silent get_gl_repository_silent)

lemma get_gl_tag_silent: "stdout_of (snd (get_gl_tag e repository t)) = stdout_of t"
  unfolding get_gl_tag_def get_gl_tags_def Let_def
  by (intro silent get_gl_repository_silent)

lemma get_cron_tag_silent: "stdout_of (snd (get_cron_tag e cron t)) = stdout_of t"
  unfolding get_cron_tag_def Let_def
  by (intro silent)

lemma select_tag_silent: "stdout_of (snd (select_tag e a t)) = stdout_of t"
  unfolding select_tag_def
  by (simp add: get_pip_version_silent get_npm_version_silent get_go_version_silent
      get_gh_commit_silent get_gh_tag_silent get_gh_release_silent get_gh_deployment_silent
      get_gl_commit_silent get_gl_tag_silent get_cron_tag_silent io_pure_silent)

lemma print_tag_ok:
  "stdout_error e (''tag='' @ py_str e tag @ [CHR 0x0A]) = None \<Longrightarrow>
   print_tag e tag t = (Inr (), t @ [Stdout (''tag='' @ py_str e tag @ [CHR 0x0A])])"
  by (simp add: print_tag_def)

lemma print_tag_raises:
  "stdout_error e (''tag='' @ py_str e tag @ [CHR 0x0A]) = Some err \<Longrightarrow>
   print_tag e tag t = (Inl err, t)"
  by (simp add: print_tag_def)

lemma main_run:
  assumes "get_docker_tags e (docker_tag a) t = (Inr tags, t1)"
    and "select_tag e a t1 = (Inr tag, t2)"
  shows "main e a t = (if py_in tag tags then (Inr (), t2) else print_tag e tag t2)"
  using assms by (simp add: main_def io_bind_def io_pure_def)

lemma resolved_silent:
  assumes "get_docker_tags e (docker_tag a) t = (Inr tags, t1)"
    and "select_tag e a t1 = (Inr tag, t2)"
  shows "stdout_of t2 = stdout_of t"
proof -
  have "stdout_of t1 = stdout_of t"
    using get_docker_tags_silent [of e "docker_tag a" t] assms(1) by simp
  moreover have "stdout_of t2 = stdout_of t1"
    using select_tag_silent [of e a t1] assms(2) by simp
  ultimately show ?thesis by simp
qed

text \<open>
  Membership of a string among the published tags is membership in the list, and the lines
  of a text that ends with a line feed: one line when there is no other line feed in it.
\<close>

lemma py_eq_string: "py_eq y (JStr s) \<longleftrightarrow> y = JStr s"
  by (cases y) auto

lemma py_in_string: "py_in (JStr s) xs \<longleftrightarrow> JStr s \<in> set xs"
  by (auto simp: py_in_def list_ex_iff py_eq_string)

lemma lines_of_line:
  assumes "CHR 0x0A \<notin> set s"
  shows "lines_of (s @ [CHR 0x0A]) = [s]"
proof -
  from assms have "takeWhile (\<lambda>c. c \<noteq> CHR 0x0A) (s @ [CHR 0x0A]) = s"
    by (induction s) auto
  moreover from assms have "dropWhile (\<lambda>c. c \<noteq> CHR 0x0A) (s @ [CHR 0x0A]) = [CHR 0x0A]"
    by (induction s) auto
  ultimately show ?thesis
    by (subst lines_of.simps) (simp add: lines_of.simps [of "[]"])
qed

lemma lines_of_broken:
  assumes "CHR 0x0A \<in> set s"
  shows "lines_of (s @ [CHR 0x0A]) \<noteq> [s]"
proof -
  have "takeWhile (\<lambda>c. c \<noteq> CHR 0x0A) (s @ [CHR 0x0A]) = takeWhile (\<lambda>c. c \<noteq> CHR 0x0A) s"
    using assms by (simp add: takeWhile_append1)
  moreover have "takeWhile (\<lambda>c. c \<noteq> CHR 0x0A) s \<noteq> s"
    using assms by (auto simp: takeWhile_eq_all_conv)
  ultimately show ?thesis
    by (subst lines_of.simps) simp
qed

text \<open>
  C2, as the code has it. An invocation that resolves an identifier has first fetched the
  published tags and then the selected provider's tag, and neither has written on standard
  output. When the identifier is among the published tags, the run returns and writes
  nothing. When it is not, \<open>tag=\<close>, the identifier and a line feed are written, and the run
  returns; or standard output refuses the text, and the run ends with that exception and
  nothing written. For an identifier that is a string, being among the tags is being an
  element of their list, the text written is the string itself, and what is written is
  one line exactly when the string holds no line feed.
\<close>

theorem main_prints_novel_tag:
  assumes "get_docker_tags e (docker_tag a) t = (Inr tags, t1)"
    and "select_tag e a t1 = (Inr tag, t2)"
  shows "stdout_of t2 = stdout_of t
       \<and> (py_in tag tags \<longrightarrow> main e a t = (Inr (), t2))
       \<and> (\<not> py_in tag tags \<and> stdout_error e (''tag='' @ py_str e tag @ [CHR 0x0A]) = None \<longrightarrow>
            main e a t = (Inr (), t2 @ [Stdout (''tag='' @ py_str e tag @ [CHR 0x0A])]))
       \<and> (\<not> py_in tag tags \<and> stdout_error e (''tag='' @ py_str e tag @ [CHR 0x0A]) = Some err \<longrightarrow>
            main e a t = (Inl err, t2))
       \<and> (tag = JStr s \<longrightarrow>
            (py_in tag tags \<longleftrightarrow> JStr s \<in> set tags) \<and> py_str e tag = s
            \<and> (lines_of (''tag='' @ s @ [CHR 0x0A]) = [''tag='' @ s] \<longleftrightarrow> CHR 0x0A \<notin> set s))"
proof -
  have quiet: "stdout_of t2 = stdout_of t"
    using assms by (rule resolved_silent)
  have run: "main e a t = (if py_in tag tags then (Inr (), t2) else print_tag e tag t2)"
    using assms by (rule main_run)
  have line: "lines_of ((''tag='' @ s) @ [CHR 0x0A]) = [''tag='' @ s] \<longleftrightarrow> CHR 0x0A \<notin> set s"
    using lines_of_line [of "''tag='' @ s"] lines_of_broken [of "''tag='' @ s"] by auto
  have str: "tag = JStr s \<longrightarrow>
            (py_in tag tags \<longleftrightarrow> JStr s \<in> set tags) \<and> py_str e tag = s
            \<and> (lines_of (''tag='' @ s @ [CHR 0x0A]) = [''tag='' @ s] \<longleftrightarrow> CHR 0x0A \<notin> set s)"
    using line by (simp add: py_in_string py_str_def)
  from quiet run str show ?thesis
    by (simp add: print_tag_ok print_tag_raises del: append.simps)
qed

theorem main_prints_novel_tag_witness:
  "main (world (serve [(index_url, index_page)])) (no_args\<lparr>pip := Some ''demo''\<rparr>) []
     = (Inr (), [Stderr_url index_url, Request index_url, Stdout ''tag=1.1.0\<newline>''])
   \<and> lines_of ''tag=1.1.0\<newline>'' = [''tag=1.1.0'']
   \<and> main (world (serve [(index_url, index_page),
                          (registry_url, tags_page [''1.0.0'', ''1.1.0''])]))
        (no_args\<lparr>docker_tag := ''me/img'', pip := Some ''demo''\<rparr>) []
       = (Inr (), [Stderr_url registry_url, Request registry_url,
                   Stderr_url index_url, Request index_url])
   \<and> stdout_of (snd (main (world (serve [(index_url, index_page),
                                          (registry_url, tags_page [''0.9.0'', ''1.0.0''])]))
                       (no_args\<lparr>docker_tag := ''me/img'', pip := Some ''demo''\<rparr>) []))
       = [''tag=1.1.0\<newline>'']
   \<and> stdout_of (snd (main (world (serve [(package_url, latest_page (JNum 7))]))
                       (no_args\<lparr>npm := Some ''demo''\<rparr>) []))
       = [''tag=7\<newline>'']
   \<and> main ((world (serve [(package_url, latest_page (JStr accented))]))
              \<lparr>stdout_error := ascii_only\<rparr>)
        (no_args\<lparr>npm := Some ''demo''\<rparr>) []
       = (Inl UnicodeEncodeError, [Stderr_url package_url, Request package_url])"
proof -
  let ?t_index = "[Stderr_url index_url, Request index_url]"
  let ?t_registry = "[Stderr_url registry_url, Request registry_url]"
  let ?t_package = "[Stderr_url package_url, Request package_url]"
  let ?e1 = "world (serve [(index_url, index_page)])"
  let ?a1 = "no_args\<lparr>pip := Some ''demo''\<rparr>"
  let ?e2 = "world (serve [(index_url, index_page),
                           (registry_url, tags_page [''1.0.0'', ''1.1.0''])])"
  let ?e3 = "world (serve [(index_url, index_page),
                           (registry_url, tags_page [''0.9.0'', ''1.0.0''])])"
  let ?a2 = "no_args\<lparr>docker_tag := ''me/img'', pip := Some ''demo''\<rparr>"
  let ?e4 = "world (serve [(package_url, latest_page (JNum 7))])"
  let ?e5 = "(world (serve [(package_url, latest_page (JStr accented))]))
               \<lparr>stdout_error := ascii_only\<rparr>"
  let ?a4 = "no_args\<lparr>npm := Some ''demo''\<rparr>"
  have tags1: "get_docker_tags ?e1 (docker_tag ?a1) [] = (Inr [], [])"
    by code_simp
  have tag1: "select_tag ?e1 ?a1 [] = (Inr (JStr ''1.1.0''), ?t_index)"
    by code_simp
  have tags2: "get_docker_tags ?e2 (docker_tag ?a2) []
                 = (Inr [JStr ''1.0.0'', JStr ''1.1.0''], ?t_registry)"
    by code_simp
  have tag2: "select_tag ?e2 ?a2 ?t_registry = (Inr (JStr ''1.1.0''), ?t_registry @ ?t_index)"
    by code_simp
  have tags3: "get_docker_tags ?e3 (docker_tag ?a2) []
                 = (Inr [JStr ''0.9.0'', JStr ''1.0.0''], ?t_registry)"
    by code_simp
  have tag3: "select_tag ?e3 ?a2 ?t_registry = (Inr (JStr ''1.1.0''), ?t_registry @ ?t_index)"
    by code_simp
  have tags4: "get_docker_tags ?e4 (docker_tag ?a4) [] = (Inr [], [])"
    by code_simp
  have tag4: "select_tag ?e4 ?a4 [] = (Inr (JNum 7), ?t_package)"
    by code_simp
  have tags5: "get_docker_tags ?e5 (docker_tag ?a4) [] = (Inr [], [])"
    by code_simp
  have tag5: "select_tag ?e5 ?a4 [] = (Inr (JStr accented), ?t_package)"
    by code_simp
  have seven: "py_str ?e4 (JNum 7) = ''7''"
    by code_simp
  have accepts: "stdout_error (world f) w = None" for f w
    by (simp add: world_def)
  have refuses: "stdout_error ?e5 (''tag='' @ accented @ [CHR 0x0A]) = Some UnicodeEncodeError"
    by code_simp
  from main_prints_novel_tag [OF tags1 tag1, of _ "''1.1.0''"]
    main_prints_novel_tag [OF tags2 tag2, of _ "''1.1.0''"]
    main_prints_novel_tag [OF tags3 tag3, of _ "''1.1.0''"]
    main_prints_novel_tag [OF tags4 tag4]
    main_prints_novel_tag [OF tags5 tag5, of UnicodeEncodeError accented]
    accepts refuses seven
  show ?thesis
    by (simp add: py_in_def stdout_of_append)
qed

text \<open>
  C2 as stated fails: an identifier that holds a line feed is resolved and is not among the
  published tags, and what is written on standard output is two lines, not one.
\<close>

theorem main_prints_novel_tag_counterexample:
  "main (world (serve [(package_url, latest_page (JStr ''1.1.0\<newline>rc1''))]))
     (no_args\<lparr>npm := Some ''demo''\<rparr>) []
     = (Inr (), [Stderr_url package_url, Request package_url,
                 Stdout ''tag=1.1.0\<newline>rc1\<newline>''])
   \<and> lines_of ''tag=1.1.0\<newline>rc1\<newline>'' = [''tag=1.1.0'', ''rc1'']"
  by code_simp


lemma fetch_snd:
  "snd (io_bind (urlopen e url RETRIES) (\<lambda>response. io_pure (f response)) t)
     = snd (urlopen e url RETRIES t)"
  by (cases "urlopen e url RETRIES t") (simp add: io_bind_def io_pure_def split: sum.split)

lemma get_docker_tags_trace:
  "repository \<noteq> '''' \<Longrightarrow>
   snd (get_docker_tags e repository t)
     = snd (urlopen e (''https://hub.docker.com/v2/repositories/'' @ repository @ ''/tags'')
              RETRIES t)"
  unfolding get_docker_tags_def Let_def by (simp only: if_False fetch_snd)

lemma get_docker_tags_requests:
  assumes "repository \<noteq> ''''"
  shows "\<exists>k. 1 \<le> k \<and> k \<le> 4 \<and>
           requests_of (snd (get_docker_tags e repository t))
             = requests_of t @ replicate k (''https://hub.docker.com/v2/repositories/''
                                              @ repository @ ''/tags'')"
proof -
  let ?url = "''https://hub.docker.com/v2/repositories/'' @ repository @ ''/tags''"
  obtain u k where u: "snd (urlopen e ?url RETRIES t) = t @ u"
    and k: "requests_of u = replicate k ?url" "1 \<le> k" "k \<le> Suc RETRIES"
    using urlopen_trace [of e ?url RETRIES t] by blast
  have "requests_of (snd (get_docker_tags e repository t)) = requests_of t @ replicate k ?url"
    unfolding get_docker_tags_trace [OF assms] u requests_of_append k(1) ..
  moreover have "k \<le> 4"
    using k(3) by (simp add: RETRIES_def)
  ultimately show ?thesis
    using k(2) by blast
qed

lemma select_tag_none: "no_provider a \<Longrightarrow> select_tag e a = io_pure (Inl NotImplementedError)"
  by (simp add: select_tag_def no_provider_def)

text \<open>
  C1, as the code has it. With no provider selected the run fails and prints nothing, but
  the failure comes after the published tags: for the empty artifact repository no
  request is issued and the run ends with \<open>NotImplementedError\<close>; otherwise the tag
  listing is requested first, one to four times, and the run ends with the error of that
  fetch or of its decoding when there is one, and with \<open>NotImplementedError\<close> when there
  is none.
\<close>

theorem main_without_provider:
  assumes "no_provider a"
  shows "(docker_tag a = '''' \<longrightarrow> main e a t = (Inl NotImplementedError, t))
       \<and> (docker_tag a \<noteq> '''' \<longrightarrow>
            main e a t = (case get_docker_tags e (docker_tag a) t of
                            (Inl x, t1) \<Rightarrow> (Inl x, t1)
                          | (Inr tags, t1) \<Rightarrow> (Inl NotImplementedError, t1))
            \<and> (\<exists>k. 1 \<le> k \<and> k \<le> 4 \<and>
                  requests_of (snd (main e a t))
                    = requests_of t @ replicate k (''https://hub.docker.com/v2/repositories/''
                                                     @ docker_tag a @ ''/tags'')))
       \<and> stdout_of (snd (main e a t)) = stdout_of t"
proof -
  have run: "main e a t = (case get_docker_tags e (docker_tag a) t of
                            (Inl x, t1) \<Rightarrow> (Inl x, t1)
                          | (Inr tags, t1) \<Rightarrow> (Inl NotImplementedError, t1))"
    by (simp add: main_def select_tag_none [OF assms] io_bind_def io_pure_def
        split: prod.split sum.split)
  then have tr: "snd (main e a t) = snd (get_docker_tags e (docker_tag a) t)"
    by (simp split: prod.split sum.split)
  have empty: "docker_tag a = '''' \<longrightarrow> main e a t = (Inl NotImplementedError, t)"
    by (simp add: run get_docker_tags_def io_pure_def)
  have quiet: "stdout_of (snd (main e a t)) = stdout_of t"
    unfolding tr by (rule get_docker_tags_silent)
  have reqs: "docker_tag a \<noteq> '''' \<longrightarrow>
         (\<exists>k. 1 \<le> k \<and> k \<le> 4 \<and>
                  requests_of (snd (main e a t))
                    = requests_of t @ replicate k (''https://hub.docker.com/v2/repositories/''
                                                     @ docker_tag a @ ''/tags''))"
    unfolding tr using get_docker_tags_requests [of "docker_tag a" e t] by blast
  from empty run quiet reqs show ?thesis
    by blast
qed

theorem main_without_provider_witness:
  "no_provider no_args
   \<and> main (world down) no_args [] = (Inl NotImplementedError, [])
   \<and> no_provider (no_args\<lparr>docker_tag := ''me/img''\<rparr>)
   \<and> fst (main (world down) (no_args\<lparr>docker_tag := ''me/img''\<rparr>) []) = Inl URLError
   \<and> requests_of (snd (main (world down) (no_args\<lparr>docker_tag := ''me/img''\<rparr>) []))
       = [registry_url, registry_url, registry_url, registry_url]"
proof -
  let ?a = "no_args\<lparr>docker_tag := ''me/img''\<rparr>"
  let ?t = "[Stderr_url registry_url, Request registry_url, Stderr_sleep 30, Sleep 30,
             Request registry_url, Stderr_sleep 60, Sleep 60,
             Request registry_url, Stderr_sleep 90, Sleep 90, Request registry_url]"
  have none: "no_provider no_args"
    by (simp add: no_provider_def no_args_def given_def)
  have none': "no_provider ?a"
    by (simp add: no_provider_def no_args_def given_def)
  have empty: "docker_tag no_args = ''''"
    by (simp add: no_args_def)
  have named: "docker_tag ?a = ''me/img''"
    by simp
  have tags: "get_docker_tags (world down) ''me/img'' [] = (Inl URLError, ?t)"
    by code_simp
  from main_without_provider [OF none, of "world down" "[]"] empty
  have first: "main (world down) no_args [] = (Inl NotImplementedError, [])"
    by simp
  from main_without_provider [OF none', of "world down" "[]"]
  have "main (world down) ?a [] = (Inl URLError, ?t)"
    unfolding named tags by simp
  then have second: "fst (main (world down) ?a []) = Inl URLError"
    "requests_of (snd (main (world down) ?a []))
       = [registry_url, registry_url, registry_url, registry_url]"
    by simp_all
  from none none' first second show ?thesis
    by blast
qed

text \<open>
  C1 as stated fails: with no provider selected and the artifact repository \<open>me/img\<close>,
  the tag listing is requested before \<open>NotImplementedError\<close> is raised.
\<close>

theorem main_without_provider_counterexample:
  "no_provider (no_args\<lparr>docker_tag := ''me/img''\<rparr>)
   \<and> main (world (serve [(registry_url, tags_page [''1.0.0''])]))
        (no_args\<lparr>docker_tag := ''me/img''\<rparr>) []
       = (Inl NotImplementedError, [Stderr_url registry_url, Request registry_url])"
  by code_simp

text \<open>
  C10, as the code has it. For a non-empty artifact repository the published tags come
  from one fetch of one URL: one to four requests, exactly one when the first attempt
  succeeds. When the fetch returns a response whose \<open>results\<close> are \<open>entries\<close>, the
  published tags are the names of these entries, in their order, and nothing else; so an
  identifier that is not among them goes to \<^verbatim>\<open>print\<close> as novel, wherever else it is
  published, and is written when standard output takes it.
\<close>

theorem get_docker_tags_single_response:
  assumes "repository \<noteq> ''''"
    and "urlopen e (''https://hub.docker.com/v2/repositories/'' @ repository @ ''/tags'')
           RETRIES t = (Inr r, t1)"
    and "body r = Inr (JObj page)"
    and "map_of page ''results'' = Some (JArr entries)"
    and "map (field_of ''name'') entries = map Some names"
  shows "get_docker_tags e repository t = (Inr names, t1)
       \<and> (\<exists>k. 1 \<le> k \<and> k \<le> 4 \<and>
             requests_of t1 = requests_of t @ replicate k
               (''https://hub.docker.com/v2/repositories/'' @ repository @ ''/tags''))
       \<and> (attempt e (length (requests_of t))
             (''https://hub.docker.com/v2/repositories/'' @ repository @ ''/tags'') = Inr r \<longrightarrow>
            requests_of t1 = requests_of t
               @ [''https://hub.docker.com/v2/repositories/'' @ repository @ ''/tags''])
       \<and> (docker_tag a = repository \<and> select_tag e a t1 = (Inr tag, t2) \<and> \<not> py_in tag names \<longrightarrow>
            main e a t = print_tag e tag t2
            \<and> (stdout_error e (''tag='' @ py_str e tag @ [CHR 0x0A]) = None \<longrightarrow>
                  stdout_of (snd (main e a t))
                    = stdout_of t @ [''tag='' @ py_str e tag @ [CHR 0x0A]]))"
proof -
  let ?url = "''https://hub.docker.com/v2/repositories/'' @ repository @ ''/tags''"
  have tags: "get_docker_tags e repository t = (Inr names, t1)"
    unfolding get_docker_tags_def Let_def
    using assms by (simp add: io_bind_def io_pure_def loads_field_def collect_fields
        del: append.simps)
  have "snd (get_docker_tags e repository t) = t1"
    using tags by simp
  then have count: "\<exists>k. 1 \<le> k \<and> k \<le> 4 \<and> requests_of t1 = requests_of t @ replicate k ?url"
    using get_docker_tags_requests [OF assms(1), of e t] by simp
  have once: "attempt e (length (requests_of t)) ?url = Inr r \<longrightarrow>
                requests_of t1 = requests_of t @ [?url]"
  proof
    assume "attempt e (length (requests_of t)) ?url = Inr r"
    then have "urlopen e ?url RETRIES t = (Inr r, t @ [Stderr_url ?url, Request ?url])"
      by (rule urlopen_first_ok)
    with assms(2) have "t1 = t @ [Stderr_url ?url, Request ?url]"
      by simp
    then show "requests_of t1 = requests_of t @ [?url]"
      by (simp add: requests_of_append del: append.simps)
  qed
  have novel: "main e a t = print_tag e tag t2
            \<and> (stdout_error e (''tag='' @ py_str e tag @ [CHR 0x0A]) = None \<longrightarrow>
                  stdout_of (snd (main e a t))
                    = stdout_of t @ [''tag='' @ py_str e tag @ [CHR 0x0A]])"
    if "docker_tag a = repository" "select_tag e a t1 = (Inr tag, t2)" "\<not> py_in tag names"
  proof -
    from that tags have resolved: "get_docker_tags e (docker_tag a) t = (Inr names, t1)"
      by simp
    from that(3) have "main e a t = print_tag e tag t2"
      by (simp add: main_run [OF resolved that(2)])
    moreover have "stdout_of t2 = stdout_of t"
      using resolved that(2) by (rule resolved_silent)
    ultimately show ?thesis
      by (simp add: print_tag_ok stdout_of_append del: append.simps)
  qed
  from tags count once novel show ?thesis
    by blast
qed

theorem get_docker_tags_single_response_witness:
  "urlopen (world (serve [(registry_url, tags_page [''1.0.0'']), (index_url, index_page)]))
     (''https://hub.docker.com/v2/repositories/'' @ ''me/img'' @ ''/tags'') RETRIES []
     = (Inr \<lparr>status = 200, body = Inr (tags_page [''1.0.0''])\<rparr>,
        [Stderr_url registry_url, Request registry_url])
   \<and> get_docker_tags (world (serve [(registry_url, tags_page [''1.0.0'']), (index_url, index_page)]))
       ''me/img'' []
       = (Inr [JStr ''1.0.0''], [Stderr_url registry_url, Request registry_url])
   \<and> stdout_of (snd (main (world (serve [(registry_url, tags_page [''1.0.0'']),
                                          (index_url, index_page)]))
                       (no_args\<lparr>docker_tag := ''me/img'', pip := Some ''demo''\<rparr>) []))
       = [''tag=1.1.0\<newline>'']"
proof -
  let ?e = "world (serve [(registry_url, tags_page [''1.0.0'']), (index_url, index_page)])"
  let ?a = "no_args\<lparr>docker_tag := ''me/img'', pip := Some ''demo''\<rparr>"
  let ?t1 = "[Stderr_url registry_url, Request registry_url]"
  let ?r = "\<lparr>status = 200, body = Inr (tags_page [''1.0.0''])\<rparr>"
  have nonempty: "''me/img'' \<noteq> ''''"
    by simp
  have fetch: "urlopen ?e (''https://hub.docker.com/v2/repositories/'' @ ''me/img'' @ ''/tags'')
                 RETRIES [] = (Inr ?r, ?t1)"
    by code_simp
  have page: "body ?r = Inr (JObj [(''results'', JArr (map (\<lambda>name. JObj [(''name'', JStr name)]) [''1.0.0'']))])"
    by (simp add: tags_page_def)
  have results: "map_of [(''results'', JArr (map (\<lambda>name. JObj [(''name'', JStr name)]) [''1.0.0'']))]
                   ''results'' = Some (JArr [JObj [(''name'', JStr ''1.0.0'')]])"
    by simp
  have names: "map (field_of ''name'') [JObj [(''name'', JStr ''1.0.0'')]] = map Some [JStr ''1.0.0'']"
    by simp
  have tag: "select_tag ?e ?a ?t1
               = (Inr (JStr ''1.1.0''), ?t1 @ [Stderr_url index_url, Request index_url])"
    by code_simp
  have arg: "docker_tag ?a = ''me/img''"
    by (simp add: no_args_def)
  have novel: "\<not> py_in (JStr ''1.1.0'') [JStr ''1.0.0'']"
    by (simp add: py_in_def)
  have accepts: "stdout_error ?e w = None" for w
    by (simp add: world_def)
  note run = get_docker_tags_single_response [OF nonempty fetch page results names,
      of ?a "JStr ''1.1.0''" "?t1 @ [Stderr_url index_url, Request index_url]"]
  have tags: "get_docker_tags ?e ''me/img'' [] = (Inr [JStr ''1.0.0''], ?t1)"
    using run by (rule conjunct1)
  note novelty = run [THEN conjunct2, THEN conjunct2, THEN conjunct2, rule_format,
      OF conjI [OF arg conjI [OF tag novel]]]
  have "stdout_of (snd (main ?e ?a []))
          = stdout_of [] @ [''tag='' @ py_str ?e (JStr ''1.1.0'') @ [CHR 0x0A]]"
    using novelty [THEN conjunct2] accepts by (rule mp)
  then have out: "stdout_of (snd (main ?e ?a [])) = [''tag=1.1.0\<newline>'']"
    by (simp add: py_str_def)
  show ?thesis
    using fetch tags out by (intro conjI)
qed

text \<open>
  C10 as stated fails: when the first attempt fails and the second succeeds, the published
  tags are returned after two requests, not one.
\<close>

theorem get_docker_tags_single_response_counterexample:
  "requests_of (snd (get_docker_tags (world (recovering (tags_page [''1.1.0''])))
                       ''me/img'' [])) = [registry_url, registry_url]
   \<and> fst (get_docker_tags (world (recovering (tags_page [''1.1.0'']))) ''me/img'' [])
       = Inr [JStr ''1.1.0'']"
  by code_simp

section \<open>Properties of the package index\<close>

lemma insort_key_map:
  "insort_key f (g x) (map g xs) = map g (insort_key (\<lambda>y. f (g y)) x xs)"
  by (induction xs) simp_all

lemma sort_key_map: "sort_key f (map g xs) = map g (sort_key (\<lambda>y. f (g y)) xs)"
  by (induction xs) (simp_all add: insort_key_map)

lemma collect_map: "collect f (map h xs) = collect (\<lambda>x. f (h x)) xs"
  by (induction xs) (simp_all split: sum.split option.split)

lemma collect_filter:
  "(\<And>x. x \<in> set xs \<Longrightarrow> f x = Inr (if P x then Some (g x) else None)) \<Longrightarrow>
   collect f xs = Inr (map g (filter P xs))"
  by (induction xs) simp_all

lemma py_sorted_strings:
  "py_sorted e (map (\<lambda>x. (JStr (k x), v x)) xs) = Inr (map v (sort_key k xs))"
proof (cases "length xs \<le> 1")
  case True
  then have "xs = [] \<or> (\<exists>x. xs = [x])"
    by (cases xs) auto
  then show ?thesis
    by (auto simp: py_sorted_def)
next
  case False
  have "list_all (\<lambda>kv. is_str (fst kv)) (map (\<lambda>x. (JStr (k x), v x)) xs)"
    by (simp add: list_all_iff)
  with False show ?thesis
    by (simp add: py_sorted_def sort_key_map comp_def)
qed

lemma not_yanked_release:
  assumes "map_of d name = Some files" and "release_ok files"
  shows "not_yanked (JObj d) (JStr name) = Inr (has_files files \<and> \<not> yanked files)"
proof (cases files rule: release_ok.cases)
  case 1
  with assms(1) show ?thesis
    by (simp add: not_yanked_def has_files_def)
next
  case (2 f fs)
  with assms(2) obtain y where "field_of ''yanked'' f = Some y"
    by auto
  with 2 assms(1) show ?thesis
    by (simp add: not_yanked_def has_files_def yanked_def py_index_def field_of_getitem)
qed (use assms(2) in simp_all)

lemma upload_time_release:
  assumes "map_of d name = Some files" and "release_ok files" and "has_files files"
  shows "upload_time (JObj d) (JStr name) = Inr (JStr (uploaded files))"
proof (cases files rule: release_ok.cases)
  case 1
  with assms(3) show ?thesis
    by (simp add: has_files_def)
next
  case (2 f fs)
  with assms(2) obtain s where "field_of ''upload_time_iso_8601'' f = Some (JStr s)"
    by (auto split: option.splits json.splits)
  with 2 assms(1) show ?thesis
    by (simp add: upload_time_def uploaded_def py_index_def field_of_getitem)
qed (use assms(2) in simp_all)

lemma pip_versions_of_releases:
  assumes "distinct (map fst releases)"
    and "list_all (\<lambda>kv. release_ok (snd kv)) releases"
  shows "and_then (py_iter (JObj releases)) (\<lambda>names.
         and_then (collect (\<lambda>release. and_then (not_yanked (JObj releases) release) (\<lambda>keep.
                     Inr (if keep then Some release else None))) names) (\<lambda>versions.
         and_then (collect (\<lambda>release. and_then (upload_time (JObj releases) release) (\<lambda>key.
                     Inr (Some (key, release)))) versions) (py_sorted e)))
         = Inr (map JStr (listed releases))"
proof -
  let ?kept = "\<lambda>kv. has_files (snd kv) \<and> \<not> yanked (snd kv)"
  have item: "map_of releases (fst kv) = Some (snd kv) \<and> release_ok (snd kv)"
    if "kv \<in> set releases" for kv
    using that assms by (cases kv) (auto simp: list_all_iff)
  have a: "collect (\<lambda>release. and_then (not_yanked (JObj releases) release) (\<lambda>keep.
                     Inr (if keep then Some release else None)))
             (map (\<lambda>kv. JStr (fst kv)) releases)
           = Inr (map (\<lambda>kv. JStr (fst kv)) (filter ?kept releases))"
    unfolding collect_map
    by (rule collect_filter) (use item in \<open>simp add: not_yanked_release\<close>)
  have b: "collect (\<lambda>release. and_then (upload_time (JObj releases) release) (\<lambda>key.
                     Inr (Some (key, release))))
             (map (\<lambda>kv. JStr (fst kv)) (filter ?kept releases))
           = Inr (map (\<lambda>kv. (JStr (uploaded (snd kv)), JStr (fst kv)))
                    (filter (\<lambda>kv. True) (filter ?kept releases)))"
    unfolding collect_map
    by (rule collect_filter) (use item in \<open>simp add: upload_time_release\<close>)
  show ?thesis
    by (simp add: a b py_sorted_strings listed_def)
qed

lemma listed_excludes:
  assumes "distinct (map fst releases)" and "kv \<in> set releases"
    and "yanked (snd kv) \<or> \<not> has_files (snd kv)"
  shows "fst kv \<notin> set (listed releases)"
proof
  assume "fst kv \<in> set (listed releases)"
  then obtain kv' where kv': "kv' \<in> set releases" "fst kv' = fst kv"
    "has_files (snd kv') \<and> \<not> yanked (snd kv')"
    by (auto simp: listed_def)
  with assms(1,2) have "kv' = kv"
    by (metis eq_key_imp_eq_value prod.collapse)
  with kv'(3) assms(3) show False
    by simp
qed

text \<open>
  C4, as the code has it. When the fetch of the index returns a response whose \<open>releases\<close>
  are the dict \<open>releases\<close>, in the shape of the index, the provider returns the listed
  versions: every release that is marked yanked or has no file is left out, and the others
  come ascending by upload timestamp, those of equal timestamps in the order of the
  response. The latest is the last of them, and an \<open>IndexError\<close> when there is none.
\<close>

theorem pip_versions_listed:
  assumes "urlopen e (''https://pypi.org/pypi/'' @ package @ ''/json'') RETRIES t = (Inr r, t1)"
    and "body r = Inr (JObj page)"
    and "map_of page ''releases'' = Some (JObj releases)"
    and "distinct (map fst releases)"
    and "list_all (\<lambda>kv. release_ok (snd kv)) releases"
  shows "get_pip_versions_2 e package t = (Inr (map JStr (listed releases)), t1)
       \<and> get_pip_version_2 e package t =
            (if listed releases = [] then Inl IndexError
             else Inr (JStr (last (listed releases))), t1)
       \<and> (\<forall>kv \<in> set releases.
             yanked (snd kv) \<or> \<not> has_files (snd kv) \<longrightarrow> fst kv \<notin> set (listed releases))"
proof -
  have versions: "get_pip_versions_2 e package t = (Inr (map JStr (listed releases)), t1)"
    unfolding get_pip_versions_2_def Let_def
    using assms(1-3) pip_versions_of_releases [OF assms(4,5)]
    by (simp add: io_bind_def io_pure_def loads_field_def del: append.simps)
  have "py_index (map JStr (listed releases)) (- 1) =
          (if listed releases = [] then Inl IndexError else Inr (JStr (last (listed releases))))"
    by (cases "listed releases" rule: rev_cases) (simp_all add: py_index_last, simp add: py_index_def)
  with versions have version: "get_pip_version_2 e package t =
            (if listed releases = [] then Inl IndexError
             else Inr (JStr (last (listed releases))), t1)"
    by (simp add: get_pip_version_2_def latest_def io_bind_def io_pure_def)
  from versions version listed_excludes [OF assms(4)] show ?thesis
    by blast
qed

theorem pip_versions_listed_witness:
  "urlopen (world (serve [(index_url, JObj [(''releases'', JObj mixed_releases)])]))
     (''https://pypi.org/pypi/'' @ ''demo'' @ ''/json'') RETRIES []
     = (Inr \<lparr>status = 200, body = Inr (JObj [(''releases'', JObj mixed_releases)])\<rparr>,
        [Stderr_url index_url, Request index_url])
   \<and> distinct (map fst mixed_releases)
   \<and> list_all (\<lambda>kv. release_ok (snd kv)) mixed_releases
   \<and> yanked (JArr [release_file True ''2023-06-30T18:20:00.000000Z''])
   \<and> fst (get_pip_versions_2
            (world (serve [(index_url, JObj [(''releases'', JObj mixed_releases)])])) ''demo'' [])
       = Inr [JStr ''1.0.0'', JStr ''2.0.0'']
   \<and> fst (get_pip_version_2
            (world (serve [(index_url, JObj [(''releases'', JObj mixed_releases)])])) ''demo'' [])
       = Inr (JStr ''2.0.0'')"
proof -
  let ?page = "[(''releases'', JObj mixed_releases)]"
  let ?e = "world (serve [(index_url, JObj ?page)])"
  let ?r = "\<lparr>status = 200, body = Inr (JObj ?page)\<rparr>"
  have fetch: "urlopen ?e (''https://pypi.org/pypi/'' @ ''demo'' @ ''/json'') RETRIES []
                 = (Inr ?r, [Stderr_url index_url, Request index_url])"
    by code_simp
  have page: "body ?r = Inr (JObj ?page)"
    by simp
  have releases: "map_of ?page ''releases'' = Some (JObj mixed_releases)"
    by simp
  have keys: "distinct (map fst mixed_releases)"
    by (simp add: mixed_releases_def)
  have shape: "list_all (\<lambda>kv. release_ok (snd kv)) mixed_releases"
    by (simp add: mixed_releases_def release_file_def)
  have marked: "yanked (JArr [release_file True ''2023-06-30T18:20:00.000000Z''])"
    by (simp add: yanked_def release_file_def)
  have order: "listed mixed_releases = [''1.0.0'', ''2.0.0'']"
    by code_simp
  from pip_versions_listed [OF fetch page releases keys shape] fetch keys shape marked
  show ?thesis
    by (simp add: order)
qed

text \<open>
  C4 as stated fails: release \<open>1.0.0\<close> has no file and is not marked yanked, so it is
  among the releases the claim lists, but the provider leaves it out.
\<close>

theorem pip_versions_listed_counterexample:
  "fst (get_pip_versions_2
          (world (serve [(index_url, JObj [(''releases'', JObj sparse_releases)])])) ''demo'' [])
     = Inr [JStr ''1.1.0'']
   \<and> unyanked sparse_releases = [''1.0.0'', ''1.1.0'']"
  by code_simp

end
